theory Spec2Isabelle
  imports Complex_Main "HOL-Library.Sublist"
begin

section \<open>Shared vocabulary\<close>

text \<open>
  The two controllers of the dashboard backend (\<^verbatim>\<open>backend/api/minecraft.py\<close> and
  \<^verbatim>\<open>backend/api/printer.py\<close>) are Flask view functions that shell out to tools and
  keep a process-wide status dictionary. The embedding makes the outside world a value
  \<open>'w\<close> that every external call reads and returns, together with the list of external
  calls made so far; a Python exception is the left summand of a result.
\<close>

subsection \<open>JSON values and HTTP responses\<close>

datatype jfloat = Finite rat | PosInf | NegInf | NaN

datatype jval =
    JNull
  | JBool bool
  | JInt int
  | JFloat jfloat
  | JStr string
  | JArr "jval list"
  | JObj "(string \<times> jval) list"

text \<open>The text \<^verbatim>\<open>str(e)\<close> of a raised exception.\<close>

datatype pyexn = PyExn string

fun str_exn :: "pyexn \<Rightarrow> string" where
  "str_exn (PyExn m) = m"

text \<open>\<^verbatim>\<open>jsonify(body)\<close> is status 200; \<^verbatim>\<open>jsonify(body), code\<close> carries its code.\<close>

datatype response = Response (body: jval) (code: nat)

definition jsonify :: "(string \<times> jval) list \<Rightarrow> response" where
  "jsonify kvs = Response (JObj kvs) 200"

definition jsonify_code :: "(string \<times> jval) list \<Rightarrow> nat \<Rightarrow> response" where
  "jsonify_code kvs c = Response (JObj kvs) c"

subsection \<open>Strings\<close>

text \<open>Python's \<^verbatim>\<open>sub in s\<close> on strings: \<open>sub\<close> occurs as a contiguous run.\<close>

fun str_in :: "string \<Rightarrow> string \<Rightarrow> bool" where
  "str_in sub [] = (sub = [])"
| "str_in sub (c # cs) = (prefix sub (c # cs) \<or> str_in sub cs)"

text \<open>
  \<^verbatim>\<open>str.lower()\<close> on the ASCII letters. A byte of a non-ASCII character is never an
  ASCII letter, so the test \<^verbatim>\<open>'java' in name.lower()\<close> reads the same on bytes.
\<close>

definition lower_char :: "char \<Rightarrow> char" where
  "lower_char c =
     (case map_of (zip ''ABCDEFGHIJKLMNOPQRSTUVWXYZ'' ''abcdefghijklmnopqrstuvwxyz'') c of
        Some d \<Rightarrow> d
      | None \<Rightarrow> c)"

definition lower :: "string \<Rightarrow> string" where
  "lower s = map lower_char s"

text \<open>\<^verbatim>\<open>os.path.join(a, b)\<close> of posixpath, two components.\<close>

definition path_join :: "string \<Rightarrow> string \<Rightarrow> string" where
  "path_join a b =
     (if prefix ''/'' b then b
      else if a = [] \<or> suffix ''/'' a then a @ b
      else a @ ''/'' @ b)"

text \<open>\<^verbatim>\<open>xs[i:]\<close>: a negative start counts from the end and is cut off at the front.\<close>

definition slice_from :: "'a list \<Rightarrow> int \<Rightarrow> 'a list" where
  "slice_from xs i =
     (if i < 0 then drop (nat (int (length xs) + i)) xs else drop (nat i) xs)"

section \<open>The game-server controller (\<^verbatim>\<open>backend/api/minecraft.py\<close>)\<close>

subsection \<open>Configuration and the outside world\<close>

record mc_config =
  MC_SERVER_DIR :: string
  MC_SERVER_JAR :: string
  MC_SERVER_USER :: string
  MC_SERVER_SCREEN :: string
  MC_RCON_PASSWORD :: string

definition MC_SERVER_SERVICE :: string where
  "MC_SERVER_SERVICE = ''minecraft''"

definition MC_RCON_HOST :: string where
  "MC_RCON_HOST = ''127.0.0.1''"

text \<open>\<^verbatim>\<open>str(MC_RCON_PORT)\<close> with \<^verbatim>\<open>MC_RCON_PORT = 25575\<close>.\<close>

definition MC_RCON_PORT_str :: string where
  "MC_RCON_PORT_str = ''25575''"

text \<open>What \<^verbatim>\<open>subprocess.run\<close> returns when it returns.\<close>

record completed =
  returncode :: int
  stdout :: string
  stderr :: string

text \<open>
  One entry of \<^verbatim>\<open>psutil.process_iter(['pid', 'name', 'cmdline'])\<close>. \<open>ProcGone\<close> is a
  process whose inspection raises \<^verbatim>\<open>NoSuchProcess\<close> or \<^verbatim>\<open>AccessDenied\<close>.
\<close>

datatype proc_entry =
    ProcGone
  | ProcInfo (pid: nat) (pname: "string option") (cmdline: "string list option")

text \<open>The external calls, as they are logged.\<close>

datatype call =
    Run "string list"
  | Exists string
  | Sleep nat
  | ProcessIter
  | ProcessNew nat
  | Terminate nat
  | WaitProc nat
  | Kill nat
  | ReadLines string

text \<open>
  The capabilities the module uses. Each may change the world (time passes while a
  command runs); \<^verbatim>\<open>os.path.exists\<close> and \<^verbatim>\<open>time.sleep\<close> do not raise.
\<close>

record 'w mc_ext =
  run :: "string list \<Rightarrow> 'w \<Rightarrow> (pyexn + completed) \<times> 'w"
  path_exists :: "string \<Rightarrow> 'w \<Rightarrow> bool \<times> 'w"
  sleep :: "nat \<Rightarrow> 'w \<Rightarrow> 'w"
  process_iter :: "'w \<Rightarrow> (pyexn + proc_entry list) \<times> 'w"
  process_new :: "nat \<Rightarrow> 'w \<Rightarrow> (pyexn + unit) \<times> 'w"
  terminate :: "nat \<Rightarrow> 'w \<Rightarrow> (pyexn + unit) \<times> 'w"
  wait_proc :: "nat \<Rightarrow> 'w \<Rightarrow> (pyexn + unit) \<times> 'w"
  kill :: "nat \<Rightarrow> 'w \<Rightarrow> (pyexn + unit) \<times> 'w"
  read_lines :: "string \<Rightarrow> 'w \<Rightarrow> (pyexn + string list) \<times> 'w"

text \<open>The threaded state: the world and the log of external calls, oldest first.\<close>

record 'w mstate =
  world :: 'w
  trace :: "call list"

definition do_run :: "'w mc_ext \<Rightarrow> string list \<Rightarrow> 'w mstate \<Rightarrow> (pyexn + completed) \<times> 'w mstate" where
  "do_run e argv s =
     (case run e argv (world s) of
        (r, w') \<Rightarrow> (r, \<lparr>world = w', trace = trace s @ [Run argv]\<rparr>))"

definition do_exists :: "'w mc_ext \<Rightarrow> string \<Rightarrow> 'w mstate \<Rightarrow> bool \<times> 'w mstate" where
  "do_exists e p s =
     (case path_exists e p (world s) of
        (b, w') \<Rightarrow> (b, \<lparr>world = w', trace = trace s @ [Exists p]\<rparr>))"

definition do_sleep :: "'w mc_ext \<Rightarrow> nat \<Rightarrow> 'w mstate \<Rightarrow> 'w mstate" where
  "do_sleep e n s = \<lparr>world = sleep e n (world s), trace = trace s @ [Sleep n]\<rparr>"

definition do_process_iter :: "'w mc_ext \<Rightarrow> 'w mstate \<Rightarrow> (pyexn + proc_entry list) \<times> 'w mstate" where
  "do_process_iter e s =
     (case process_iter e (world s) of
        (r, w') \<Rightarrow> (r, \<lparr>world = w', trace = trace s @ [ProcessIter]\<rparr>))"

definition do_process_new :: "'w mc_ext \<Rightarrow> nat \<Rightarrow> 'w mstate \<Rightarrow> (pyexn + unit) \<times> 'w mstate" where
  "do_process_new e p s =
     (case process_new e p (world s) of
        (r, w') \<Rightarrow> (r, \<lparr>world = w', trace = trace s @ [ProcessNew p]\<rparr>))"

definition do_terminate :: "'w mc_ext \<Rightarrow> nat \<Rightarrow> 'w mstate \<Rightarrow> (pyexn + unit) \<times> 'w mstate" where
  "do_terminate e p s =
     (case terminate e p (world s) of
        (r, w') \<Rightarrow> (r, \<lparr>world = w', trace = trace s @ [Terminate p]\<rparr>))"

definition do_wait_proc :: "'w mc_ext \<Rightarrow> nat \<Rightarrow> 'w mstate \<Rightarrow> (pyexn + unit) \<times> 'w mstate" where
  "do_wait_proc e p s =
     (case wait_proc e p (world s) of
        (r, w') \<Rightarrow> (r, \<lparr>world = w', trace = trace s @ [WaitProc p]\<rparr>))"

definition do_kill :: "'w mc_ext \<Rightarrow> nat \<Rightarrow> 'w mstate \<Rightarrow> (pyexn + unit) \<times> 'w mstate" where
  "do_kill e p s =
     (case kill e p (world s) of
        (r, w') \<Rightarrow> (r, \<lparr>world = w', trace = trace s @ [Kill p]\<rparr>))"

definition do_read_lines :: "'w mc_ext \<Rightarrow> string \<Rightarrow> 'w mstate \<Rightarrow> (pyexn + string list) \<times> 'w mstate" where
  "do_read_lines e p s =
     (case read_lines e p (world s) of
        (r, w') \<Rightarrow> (r, \<lparr>world = w', trace = trace s @ [ReadLines p]\<rparr>))"

subsection \<open>The log endpoint\<close>

text \<open>
  \<^verbatim>\<open>int(request.args.get('lines', 50))\<close>: the query parameter is absent, or its text
  reads as an integer, or \<^verbatim>\<open>int\<close> raises \<^verbatim>\<open>ValueError\<close> with the given message.
\<close>

datatype lines_arg = NoArg | IntArg int | BadArg string

definition log_file :: "mc_config \<Rightarrow> string" where
  "log_file cfg = path_join (path_join (MC_SERVER_DIR cfg) ''logs'') ''latest.log''"

text \<open>
  \<^verbatim>\<open>
  lines = min(lines, 500)  # Limit to 500 lines max
  recent_lines = log_lines[-lines:] if len(log_lines) > lines else log_lines
  \<close>
\<close>

definition recent_lines :: "string list \<Rightarrow> int \<Rightarrow> string list" where
  "recent_lines log_lines requested =
     (let lines = min requested 500
      in if int (length log_lines) > lines then slice_from log_lines (- lines) else log_lines)"

definition get_log :: "'w mc_ext \<Rightarrow> mc_config \<Rightarrow> lines_arg \<Rightarrow> 'w mstate \<Rightarrow> response \<times> 'w mstate" where
  "get_log e cfg arg s =
     (case do_exists e (log_file cfg) s of
        (False, s1) \<Rightarrow> (jsonify_code [(''error'', JStr ''Log file not found'')] 404, s1)
      | (True, s1) \<Rightarrow>
          (case arg of
             BadArg m \<Rightarrow> (jsonify_code [(''error'', JStr m)] 500, s1)
           | _ \<Rightarrow>
              (let requested = (case arg of IntArg n \<Rightarrow> n | _ \<Rightarrow> 50)
               in case do_read_lines e (log_file cfg) s1 of
                    (Inl x, s2) \<Rightarrow> (jsonify_code [(''error'', JStr (str_exn x))] 500, s2)
                  | (Inr log_lines, s2) \<Rightarrow>
                      (jsonify
                         [(''status'', JStr ''ok''),
                          (''lines'', JArr (map JStr (recent_lines log_lines requested))),
                          (''total_lines'', JInt (int (length log_lines)))], s2))))"

subsection \<open>Detection\<close>

text \<open>
  \<^verbatim>\<open>
  if proc.info['name'] and 'java' in proc.info['name'].lower():
      cmdline = proc.info.get('cmdline', [])
      if cmdline and any('paper.jar' in str(arg) for arg in cmdline):
  \<close>
  An entry that raises is skipped by the inner \<^verbatim>\<open>except ...: pass\<close>.
\<close>

fun proc_matches :: "proc_entry \<Rightarrow> bool" where
  "proc_matches ProcGone = False"
| "proc_matches (ProcInfo p n c) =
     (case n of
        None \<Rightarrow> False
      | Some nm \<Rightarrow>
          nm \<noteq> [] \<and> str_in ''java'' (lower nm) \<and>
          (case c of
             None \<Rightarrow> False
           | Some args \<Rightarrow> args \<noteq> [] \<and> list_ex (str_in ''paper.jar'') args))"

definition is_active_argv :: "string list" where
  "is_active_argv = [''systemctl'', ''is-active'', ''--quiet'', MC_SERVER_SERVICE]"

definition screen_ls_argv :: "mc_config \<Rightarrow> string list" where
  "screen_ls_argv cfg = [''screen'', ''-ls'', MC_SERVER_SCREEN cfg]"

text \<open>
  The three detection probes of \<^verbatim>\<open>is_server_running\<close>, one per block of its body.
  The whole body sits in one \<^verbatim>\<open>try: ... except: pass\<close>, so a probe whose call raises
  ends the function with \<^verbatim>\<open>False\<close>. A raise in the middle of the process iteration
  is the same as a shorter list, since the loop returns at the first match.
\<close>

datatype signal = Positive | Negative | Failed

definition probe_service :: "'w mc_ext \<Rightarrow> mc_config \<Rightarrow> 'w mstate \<Rightarrow> signal \<times> 'w mstate" where
  "probe_service e cfg s =
     (case do_run e is_active_argv s of
        (Inl x, s1) \<Rightarrow> (Failed, s1)
      | (Inr r, s1) \<Rightarrow> (if returncode r = 0 then Positive else Negative, s1))"

definition probe_screen :: "'w mc_ext \<Rightarrow> mc_config \<Rightarrow> 'w mstate \<Rightarrow> signal \<times> 'w mstate" where
  "probe_screen e cfg s =
     (case do_run e (screen_ls_argv cfg) s of
        (Inl x, s1) \<Rightarrow> (Failed, s1)
      | (Inr r, s1) \<Rightarrow>
          (if str_in (MC_SERVER_SCREEN cfg) (stdout r) then Positive else Negative, s1))"

definition probe_process :: "'w mc_ext \<Rightarrow> mc_config \<Rightarrow> 'w mstate \<Rightarrow> signal \<times> 'w mstate" where
  "probe_process e cfg s =
     (case do_process_iter e s of
        (Inl x, s1) \<Rightarrow> (Failed, s1)
      | (Inr ps, s1) \<Rightarrow> (if list_ex proc_matches ps then Positive else Negative, s1))"

definition is_server_running :: "'w mc_ext \<Rightarrow> mc_config \<Rightarrow> 'w mstate \<Rightarrow> bool \<times> 'w mstate" where
  "is_server_running e cfg s =
     (case probe_service e cfg s of
        (Positive, s1) \<Rightarrow> (True, s1)
      | (Failed, s1) \<Rightarrow> (False, s1)
      | (Negative, s1) \<Rightarrow>
          (case probe_screen e cfg s1 of
             (Positive, s2) \<Rightarrow> (True, s2)
           | (Failed, s2) \<Rightarrow> (False, s2)
           | (Negative, s2) \<Rightarrow>
               (case probe_process e cfg s2 of
                  (Positive, s3) \<Rightarrow> (True, s3)
                | (Negative, s3) \<Rightarrow> (False, s3)
                | (Failed, s3) \<Rightarrow> (False, s3))))"

text \<open>\<^verbatim>\<open>get_server_pid\<close>: the pid of the first matching process, or \<^verbatim>\<open>None\<close>.\<close>

definition get_server_pid :: "'w mc_ext \<Rightarrow> 'w mstate \<Rightarrow> nat option \<times> 'w mstate" where
  "get_server_pid e s =
     (case do_process_iter e s of
        (Inl x, s1) \<Rightarrow> (None, s1)
      | (Inr ps, s1) \<Rightarrow>
          (case find proc_matches ps of
             None \<Rightarrow> (None, s1)
           | Some p \<Rightarrow> (Some (pid p), s1)))"

subsection \<open>Start\<close>

definition start_argv :: "string list" where
  "start_argv = [''sudo'', ''systemctl'', ''start'', MC_SERVER_SERVICE]"

definition screen_cmd :: "mc_config \<Rightarrow> string" where
  "screen_cmd cfg =
     ''screen -dmS '' @ MC_SERVER_SCREEN cfg @ '' bash -c '' @ [CHR 0x22] @ ''cd ''
       @ MC_SERVER_DIR cfg @ '' && java -Xms1G -Xmx4G -jar '' @ MC_SERVER_JAR cfg
       @ '' nogui'' @ [CHR 0x22]"

definition screen_start_argv :: "mc_config \<Rightarrow> string list" where
  "screen_start_argv cfg = [''sudo'', ''-u'', MC_SERVER_USER cfg, ''bash'', ''-c'', screen_cmd cfg]"

definition jar_path :: "mc_config \<Rightarrow> string" where
  "jar_path cfg = path_join (MC_SERVER_DIR cfg) (MC_SERVER_JAR cfg)"

definition starting :: response where
  "starting = jsonify [(''status'', JStr ''starting'')]"

definition minecraft_start :: "'w mc_ext \<Rightarrow> mc_config \<Rightarrow> 'w mstate \<Rightarrow> response \<times> 'w mstate" where
  "minecraft_start e cfg s =
     (case is_server_running e cfg s of
        (True, s0) \<Rightarrow> (jsonify_code [(''error'', JStr ''Server is already running'')] 400, s0)
      | (False, s0) \<Rightarrow>
          (case do_run e start_argv s0 of
             (Inl x, s1) \<Rightarrow> (jsonify_code [(''error'', JStr (str_exn x))] 500, s1)
           | (Inr r, s1) \<Rightarrow>
               if returncode r = 0 then (starting, s1)
               else
                 (case do_exists e (jar_path cfg) s1 of
                    (False, s2) \<Rightarrow>
                      (jsonify_code
                         [(''error'', JStr (''Server jar not found: '' @ jar_path cfg))] 404, s2)
                  | (True, s2) \<Rightarrow>
                      (case do_run e (screen_start_argv cfg) s2 of
                         (Inl x, s3) \<Rightarrow> (jsonify_code [(''error'', JStr (str_exn x))] 500, s3)
                       | (Inr r2, s3) \<Rightarrow>
                           if returncode r2 = 0 then (starting, s3)
                           else
                             (jsonify_code
                                [(''error'', JStr (''Failed to start server: '' @ stderr r2))]
                                500, s3)))))"

subsection \<open>Stop\<close>

definition stop_argv :: "string list" where
  "stop_argv = [''sudo'', ''systemctl'', ''stop'', MC_SERVER_SERVICE]"

definition rcon_stop_argv :: "mc_config \<Rightarrow> string \<Rightarrow> string list" where
  "rcon_stop_argv cfg mcrcon_cmd =
     [mcrcon_cmd, ''-H'', MC_RCON_HOST, ''-P'', MC_RCON_PORT_str, ''-p'', MC_RCON_PASSWORD cfg,
      ''stop'']"

definition screen_stop_argv :: "mc_config \<Rightarrow> string list" where
  "screen_stop_argv cfg =
     [''sudo'', ''-u'', MC_SERVER_USER cfg, ''screen'', ''-S'', MC_SERVER_SCREEN cfg, ''-X'',
      ''stuff'', ''stop'' @ [CHR 0x0A]]"

definition stopped :: response where
  "stopped = jsonify [(''status'', JStr ''stopped'')]"

text \<open>
  The last block of \<^verbatim>\<open>stop\<close>:
  \<^verbatim>\<open>
  pid = get_server_pid()
  if pid:
      try:
          proc = psutil.Process(pid)
          proc.terminate()
          proc.wait(timeout=10)
      except:
          try:
              proc.kill()
          except:
              pass
  return jsonify({'status': 'stopped'})
  \<close>
  When \<^verbatim>\<open>psutil.Process(pid)\<close> raises, \<^verbatim>\<open>proc\<close> is unbound, so \<^verbatim>\<open>proc.kill()\<close> raises
  before any signal is sent and the inner handler swallows it.
\<close>

definition stop_kill :: "'w mc_ext \<Rightarrow> mc_config \<Rightarrow> 'w mstate \<Rightarrow> response \<times> 'w mstate" where
  "stop_kill e cfg s =
     (case get_server_pid e s of
        (None, s1) \<Rightarrow> (stopped, s1)
      | (Some p, s1) \<Rightarrow>
          if p = 0 then (stopped, s1)
          else
            (case do_process_new e p s1 of
               (Inl x, s2) \<Rightarrow> (stopped, s2)
             | (Inr u, s2) \<Rightarrow>
                 (case do_terminate e p s2 of
                    (Inl x, s3) \<Rightarrow> (stopped, snd (do_kill e p s3))
                  | (Inr u, s3) \<Rightarrow>
                      (case do_wait_proc e p s3 of
                         (Inl x, s4) \<Rightarrow> (stopped, snd (do_kill e p s4))
                       | (Inr u, s4) \<Rightarrow> (stopped, s4)))))"

text \<open>
  The screen block: the command, \<^verbatim>\<open>time.sleep(3)\<close>, a fresh detection. A raise of the
  command falls through to the next block (\<^verbatim>\<open>except: pass\<close>).
\<close>

definition stop_screen :: "'w mc_ext \<Rightarrow> mc_config \<Rightarrow> 'w mstate \<Rightarrow> response \<times> 'w mstate" where
  "stop_screen e cfg s =
     (case do_run e (screen_stop_argv cfg) s of
        (Inl x, s1) \<Rightarrow> stop_kill e cfg s1
      | (Inr r, s1) \<Rightarrow>
          (case is_server_running e cfg (do_sleep e 3 s1) of
             (False, s2) \<Rightarrow> (stopped, s2)
           | (True, s2) \<Rightarrow> stop_kill e cfg s2))"

text \<open>
  The RCON block:
  \<^verbatim>\<open>
  mcrcon_cmd = '/usr/bin/mcrcon' if os.path.exists('/usr/bin/mcrcon') else '/usr/local/bin/mcrcon'
  if os.path.exists(mcrcon_cmd):
      subprocess.run([mcrcon_cmd, ..., 'stop'], timeout=10)
      time.sleep(3)
      if not is_server_running():
          return jsonify({'status': 'stopped'})
  \<close>
\<close>

definition stop_rcon :: "'w mc_ext \<Rightarrow> mc_config \<Rightarrow> 'w mstate \<Rightarrow> response \<times> 'w mstate" where
  "stop_rcon e cfg s =
     (case do_exists e ''/usr/bin/mcrcon'' s of
        (b, s1) \<Rightarrow>
          (let mcrcon_cmd = (if b then ''/usr/bin/mcrcon'' else ''/usr/local/bin/mcrcon'')
           in case do_exists e mcrcon_cmd s1 of
                (False, s2) \<Rightarrow> stop_screen e cfg s2
              | (True, s2) \<Rightarrow>
                  (case do_run e (rcon_stop_argv cfg mcrcon_cmd) s2 of
                     (Inl x, s3) \<Rightarrow> stop_screen e cfg s3
                   | (Inr r, s3) \<Rightarrow>
                       (case is_server_running e cfg (do_sleep e 3 s3) of
                          (False, s4) \<Rightarrow> (stopped, s4)
                        | (True, s4) \<Rightarrow> stop_screen e cfg s4))))"

definition minecraft_stop :: "'w mc_ext \<Rightarrow> mc_config \<Rightarrow> 'w mstate \<Rightarrow> response \<times> 'w mstate" where
  "minecraft_stop e cfg s =
     (case is_server_running e cfg s of
        (False, s0) \<Rightarrow> (jsonify_code [(''error'', JStr ''Server is not running'')] 400, s0)
      | (True, s0) \<Rightarrow>
          (case do_run e stop_argv s0 of
             (Inl x, s1) \<Rightarrow> (jsonify_code [(''error'', JStr (str_exn x))] 500, s1)
           | (Inr r, s1) \<Rightarrow>
               if returncode r = 0 then (stopped, s1) else stop_rcon e cfg s1))"

subsection \<open>Restart\<close>

text \<open>
  \<^verbatim>\<open>
  if is_server_running():
      stop()
      import time
      time.sleep(2)  # Wait a bit
  start()
  return jsonify({'status': 'restarting'})
  \<close>
  The responses of \<^verbatim>\<open>stop()\<close> and \<^verbatim>\<open>start()\<close> are dropped; neither raises.
\<close>

definition restart_stop_phase :: "'w mc_ext \<Rightarrow> mc_config \<Rightarrow> 'w mstate \<Rightarrow> 'w mstate" where
  "restart_stop_phase e cfg s =
     (case is_server_running e cfg s of
        (True, s0) \<Rightarrow> do_sleep e 2 (snd (minecraft_stop e cfg s0))
      | (False, s0) \<Rightarrow> s0)"

definition minecraft_restart :: "'w mc_ext \<Rightarrow> mc_config \<Rightarrow> 'w mstate \<Rightarrow> response \<times> 'w mstate" where
  "minecraft_restart e cfg s =
     (jsonify [(''status'', JStr ''restarting'')],
      snd (minecraft_start e cfg (restart_stop_phase e cfg s)))"

subsection \<open>Escalation steps in the call log\<close>

text \<open>Which escalation step, if any, a logged call is the action of.\<close>

datatype step =
    ServiceStop | ProtocolStop | ConsoleStop | ForcedTerminate | ForcedKill
  | ServiceStart | ScreenStart

definition step_of :: "mc_config \<Rightarrow> call \<Rightarrow> step option" where
  "step_of cfg c =
     (case c of
        Run argv \<Rightarrow>
          if argv = stop_argv then Some ServiceStop
          else if argv = rcon_stop_argv cfg ''/usr/bin/mcrcon''
                \<or> argv = rcon_stop_argv cfg ''/usr/local/bin/mcrcon'' then Some ProtocolStop
          else if argv = screen_stop_argv cfg then Some ConsoleStop
          else if argv = start_argv then Some ServiceStart
          else if argv = screen_start_argv cfg then Some ScreenStart
          else None
      | Terminate p \<Rightarrow> Some ForcedTerminate
      | Kill p \<Rightarrow> Some ForcedKill
      | _ \<Rightarrow> None)"

definition actions :: "mc_config \<Rightarrow> call list \<Rightarrow> step list" where
  "actions cfg tr = List.map_filter (step_of cfg) tr"

text \<open>The calls an operation added to the log.\<close>

definition new_calls :: "'w mstate \<Rightarrow> 'w mstate \<Rightarrow> call list" where
  "new_calls s s' = drop (length (trace s)) (trace s')"

subsection \<open>A scripted world\<close>

text \<open>
  A world that is a script of canned replies, consumed one per external call: the test
  double of the capabilities. A reply of the wrong kind, or an exhausted script, makes
  the call raise (\<^verbatim>\<open>os.path.exists\<close> then says \<^verbatim>\<open>False\<close>).
\<close>

datatype reply =
    Raises string
  | Exit int string string
  | Path bool
  | Procs "proc_entry list"
  | Ok
  | Lines "string list"

definition unscripted :: pyexn where
  "unscripted = PyExn ''unscripted''"

fun script_run :: "reply list \<Rightarrow> (pyexn + completed) \<times> reply list" where
  "script_run (Exit rc out err # rs) = (Inr \<lparr>returncode = rc, stdout = out, stderr = err\<rparr>, rs)"
| "script_run (Raises m # rs) = (Inl (PyExn m), rs)"
| "script_run (r # rs) = (Inl unscripted, rs)"
| "script_run [] = (Inl unscripted, [])"

fun script_exists :: "reply list \<Rightarrow> bool \<times> reply list" where
  "script_exists (Path b # rs) = (b, rs)"
| "script_exists (r # rs) = (False, rs)"
| "script_exists [] = (False, [])"

fun script_procs :: "reply list \<Rightarrow> (pyexn + proc_entry list) \<times> reply list" where
  "script_procs (Procs ps # rs) = (Inr ps, rs)"
| "script_procs (Raises m # rs) = (Inl (PyExn m), rs)"
| "script_procs (r # rs) = (Inl unscripted, rs)"
| "script_procs [] = (Inl unscripted, [])"

fun script_unit :: "reply list \<Rightarrow> (pyexn + unit) \<times> reply list" where
  "script_unit (Ok # rs) = (Inr (), rs)"
| "script_unit (Raises m # rs) = (Inl (PyExn m), rs)"
| "script_unit (r # rs) = (Inl unscripted, rs)"
| "script_unit [] = (Inl unscripted, [])"

fun script_lines :: "reply list \<Rightarrow> (pyexn + string list) \<times> reply list" where
  "script_lines (Lines ls # rs) = (Inr ls, rs)"
| "script_lines (Raises m # rs) = (Inl (PyExn m), rs)"
| "script_lines (r # rs) = (Inl unscripted, rs)"
| "script_lines [] = (Inl unscripted, [])"

definition scripted :: "reply list mc_ext" where
  "scripted =
     \<lparr>run = (\<lambda>argv. script_run),
      path_exists = (\<lambda>p. script_exists),
      sleep = (\<lambda>n w. w),
      process_iter = script_procs,
      process_new = (\<lambda>p. script_unit),
      terminate = (\<lambda>p. script_unit),
      wait_proc = (\<lambda>p. script_unit),
      kill = (\<lambda>p. script_unit),
      read_lines = (\<lambda>p. script_lines)\<rparr>"

definition init :: "'w \<Rightarrow> 'w mstate" where
  "init w = \<lparr>world = w, trace = []\<rparr>"

definition default_config :: mc_config where
  "default_config =
     \<lparr>MC_SERVER_DIR = ''/opt/minecraft'', MC_SERVER_JAR = ''paper.jar'',
      MC_SERVER_USER = ''minecraft'', MC_SERVER_SCREEN = ''mcserver'',
      MC_RCON_PASSWORD = []\<rparr>"

subsection \<open>Vocabulary of the statements\<close>

text \<open>The calls of a full detection, in the order of the source.\<close>

definition detect_calls :: "mc_config \<Rightarrow> call list" where
  "detect_calls cfg = [Run is_active_argv, Run (screen_ls_argv cfg), ProcessIter]"

text \<open>How many probes a detection runs: one more than the leading negative signals.\<close>

definition probes_run :: "signal list \<Rightarrow> nat" where
  "probes_run sigs = min (length sigs) (Suc (length (takeWhile (\<lambda>x. x = Negative) sigs)))"

text \<open>
  The escalation of \<^verbatim>\<open>stop\<close> in the words of the statement about it, to be compared
  with \<open>minecraft_stop\<close>. A step is its command: it answers whether the command was
  issued and returned. The RCON command is issued only when an mcrcon binary exists,
  at \<^verbatim>\<open>/usr/bin/mcrcon\<close> or else at \<^verbatim>\<open>/usr/local/bin/mcrcon\<close>.
\<close>

definition rcon_command :: "'w mc_ext \<Rightarrow> mc_config \<Rightarrow> 'w mstate \<Rightarrow> bool \<times> 'w mstate" where
  "rcon_command e cfg s =
     (case do_exists e ''/usr/bin/mcrcon'' s of
        (b, s1) \<Rightarrow>
          (let mcrcon_cmd = (if b then ''/usr/bin/mcrcon'' else ''/usr/local/bin/mcrcon'')
           in case do_exists e mcrcon_cmd s1 of
                (False, s2) \<Rightarrow> (False, s2)
              | (True, s2) \<Rightarrow>
                  (case do_run e (rcon_stop_argv cfg mcrcon_cmd) s2 of
                     (Inl x, s3) \<Rightarrow> (False, s3)
                   | (Inr r, s3) \<Rightarrow> (True, s3))))"

definition screen_command :: "'w mc_ext \<Rightarrow> mc_config \<Rightarrow> 'w mstate \<Rightarrow> bool \<times> 'w mstate" where
  "screen_command e cfg s =
     (case do_run e (screen_stop_argv cfg) s of
        (Inl x, s1) \<Rightarrow> (False, s1)
      | (Inr r, s1) \<Rightarrow> (True, s1))"

text \<open>
  The steps are tried in order. A step whose command was issued and returned is
  followed by a wait of three seconds and a fresh detection, and ends the sequence with
  success when that detection reports the server stopped; a step whose command was not
  issued or raised is followed by the next step at once. The answer is whether a step
  ended the sequence.
\<close>

fun escalate ::
  "'w mc_ext \<Rightarrow> mc_config \<Rightarrow> ('w mstate \<Rightarrow> bool \<times> 'w mstate) list \<Rightarrow> 'w mstate \<Rightarrow> bool \<times> 'w mstate" where
  "escalate e cfg [] s = (False, s)"
| "escalate e cfg (command # commands) s =
     (case command s of
        (False, s1) \<Rightarrow> escalate e cfg commands s1
      | (True, s1) \<Rightarrow>
          (case is_server_running e cfg (do_sleep e 3 s1) of
             (False, s2) \<Rightarrow> (True, s2)
           | (True, s2) \<Rightarrow> escalate e cfg commands s2))"

text \<open>
  The whole operation: the precondition; the service-manager step, which ends the
  sequence with success as soon as its command exits with 0, with no wait and no
  detection (and with status 500 when the command raises); then the RCON and the
  screen step; then forced termination, which always answers "stopped".
\<close>

definition escalation :: "'w mc_ext \<Rightarrow> mc_config \<Rightarrow> 'w mstate \<Rightarrow> response \<times> 'w mstate" where
  "escalation e cfg s =
     (case is_server_running e cfg s of
        (False, s0) \<Rightarrow> (jsonify_code [(''error'', JStr ''Server is not running'')] 400, s0)
      | (True, s0) \<Rightarrow>
          (case do_run e stop_argv s0 of
             (Inl x, s1) \<Rightarrow> (jsonify_code [(''error'', JStr (str_exn x))] 500, s1)
           | (Inr r, s1) \<Rightarrow>
               if returncode r = 0 then (stopped, s1)
               else
                 (case escalate e cfg [rcon_command e cfg, screen_command e cfg] s1 of
                    (True, s2) \<Rightarrow> (stopped, s2)
                  | (False, s2) \<Rightarrow> stop_kill e cfg s2)))"

text \<open>A world in which nothing happens: every command prints the world and exits with 1.\<close>

definition still :: "string mc_ext" where
  "still =
     \<lparr>run = (\<lambda>argv w. (Inr \<lparr>returncode = 1, stdout = w, stderr = []\<rparr>, w)),
      path_exists = (\<lambda>p w. (False, w)),
      sleep = (\<lambda>n w. w),
      process_iter = (\<lambda>w. (Inr [], w)),
      process_new = (\<lambda>p w. (Inl unscripted, w)),
      terminate = (\<lambda>p w. (Inl unscripted, w)),
      wait_proc = (\<lambda>p w. (Inl unscripted, w)),
      kill = (\<lambda>p w. (Inl unscripted, w)),
      read_lines = (\<lambda>p w. (Inl unscripted, w))\<rparr>"

text \<open>Scripts of the scripted world used as concrete inputs.\<close>

definition java_proc :: proc_entry where
  "java_proc =
     ProcInfo 4242 (Some ''java'') (Some [''java'', ''-Xms1G'', ''-jar'', ''paper.jar'', ''nogui''])"

definition script_service_ok :: "reply list" where
  "script_service_ok = [Exit 0 [] [], Exit 0 [] [], Exit 0 [] []]"

definition script_rcon_ok :: "reply list" where
  "script_rcon_ok =
     [Exit 0 [] [], Exit 1 [] [], Path True, Path True, Exit 0 [] [],
      Exit 3 [] [], Exit 1 [] [], Procs []]"

definition script_screen_ok :: "reply list" where
  "script_screen_ok =
     [Exit 0 [] [], Exit 1 [] [], Path True, Path True, Exit 0 [] [], Exit 0 [] [],
      Exit 0 [] [], Exit 3 [] [], Exit 1 [] [], Procs []]"

definition script_rcon_local_ok :: "reply list" where
  "script_rcon_local_ok =
     [Exit 0 [] [], Exit 1 [] [], Path False, Path True, Exit 0 [] [],
      Exit 3 [] [], Exit 1 [] [], Procs []]"

definition script_no_rcon :: "reply list" where
  "script_no_rcon =
     [Exit 0 [] [], Exit 1 [] [], Path False, Path False, Exit 0 [] [],
      Exit 3 [] [], Exit 1 [] [], Procs []]"

definition script_rcon_raises :: "reply list" where
  "script_rcon_raises =
     [Exit 0 [] [], Exit 1 [] [], Path True, Path True, Raises ''timed out'', Exit 0 [] [],
      Exit 3 [] [], Exit 1 [] [], Procs []]"

definition script_unkillable :: "reply list" where
  "script_unkillable =
     [Exit 0 [] [], Exit 1 [] [], Path True, Path True, Exit 0 [] [], Exit 0 [] [],
      Exit 0 [] [], Exit 0 [] [], Procs [java_proc], Ok, Ok, Raises ''timeout'',
      Raises ''access denied'', Exit 0 [] []]"

definition script_restart :: "reply list" where
  "script_restart = [Exit 0 [] [], Exit 0 [] [], Raises ''timed out'', Exit 0 [] []]"

section \<open>The printer controller (\<^verbatim>\<open>backend/api/printer.py\<close>)\<close>

subsection \<open>Python operations on parsed JSON\<close>

text \<open>
  The exceptions the interpreter raises inside the module. The wording of their
  messages is not modelled: the class name stands for \<^verbatim>\<open>str(e)\<close>.
\<close>

definition TypeError :: pyexn where
  "TypeError = PyExn ''TypeError''"

definition AttributeError :: pyexn where
  "AttributeError = PyExn ''AttributeError''"

definition ValueError :: pyexn where
  "ValueError = PyExn ''ValueError''"

definition KeyError :: pyexn where
  "KeyError = PyExn ''KeyError''"

text \<open>
  \<^verbatim>\<open>key in data\<close> for a string \<open>key\<close>: a key of a dict (a dict is an association
  list with distinct keys), an element of a list, a substring of a string; the other
  values are not iterable.
\<close>

fun py_in :: "string \<Rightarrow> jval \<Rightarrow> pyexn + bool" where
  "py_in k (JObj kvs) = Inr (map_of kvs k \<noteq> None)"
| "py_in k (JArr xs) = Inr (JStr k \<in> set xs)"
| "py_in k (JStr s) = Inr (str_in k s)"
| "py_in k JNull = Inl TypeError"
| "py_in k (JBool b) = Inl TypeError"
| "py_in k (JInt n) = Inl TypeError"
| "py_in k (JFloat f) = Inl TypeError"

text \<open>\<^verbatim>\<open>data[key]\<close> for a string \<open>key\<close>: only a dict can be indexed by a string.\<close>

fun py_getitem :: "jval \<Rightarrow> string \<Rightarrow> pyexn + jval" where
  "py_getitem (JObj kvs) k = (case map_of kvs k of None \<Rightarrow> Inl KeyError | Some v \<Rightarrow> Inr v)"
| "py_getitem (JArr xs) k = Inl TypeError"
| "py_getitem (JStr s) k = Inl TypeError"
| "py_getitem JNull k = Inl TypeError"
| "py_getitem (JBool b) k = Inl TypeError"
| "py_getitem (JInt n) k = Inl TypeError"
| "py_getitem (JFloat f) k = Inl TypeError"

text \<open>\<^verbatim>\<open>data.get(key, default)\<close>: only a dict has the method.\<close>

fun py_get :: "jval \<Rightarrow> string \<Rightarrow> jval \<Rightarrow> pyexn + jval" where
  "py_get (JObj kvs) k d = Inr (case map_of kvs k of None \<Rightarrow> d | Some v \<Rightarrow> v)"
| "py_get (JArr xs) k d = Inl AttributeError"
| "py_get (JStr s) k d = Inl AttributeError"
| "py_get JNull k d = Inl AttributeError"
| "py_get (JBool b) k d = Inl AttributeError"
| "py_get (JInt n) k d = Inl AttributeError"
| "py_get (JFloat f) k d = Inl AttributeError"

text \<open>\<^verbatim>\<open>remaining > 0\<close>: numbers compare (\<^verbatim>\<open>True\<close> is 1, NaN is not greater); the rest raise.\<close>

fun py_gt_zero :: "jval \<Rightarrow> pyexn + bool" where
  "py_gt_zero (JInt n) = Inr (n > 0)"
| "py_gt_zero (JBool b) = Inr b"
| "py_gt_zero (JFloat (Finite q)) = Inr (q > 0)"
| "py_gt_zero (JFloat PosInf) = Inr True"
| "py_gt_zero (JFloat NegInf) = Inr False"
| "py_gt_zero (JFloat NaN) = Inr False"
| "py_gt_zero JNull = Inl TypeError"
| "py_gt_zero (JStr s) = Inl TypeError"
| "py_gt_zero (JArr xs) = Inl TypeError"
| "py_gt_zero (JObj kvs) = Inl TypeError"

text \<open>\<^verbatim>\<open>str(n)\<close> of a natural number, and of an integer.\<close>

fun str_nat :: "nat \<Rightarrow> string" where
  "str_nat n =
     (if n < 10 then [''0123456789'' ! n]
      else str_nat (n div 10) @ [''0123456789'' ! (n mod 10)])"

declare str_nat.simps [simp del]

definition str_int :: "int \<Rightarrow> string" where
  "str_int i = (if i < 0 then ''-'' @ str_nat (nat (- i)) else str_nat (nat i))"

text \<open>\<^verbatim>\<open>f"{n:02d}"\<close> of a natural number.\<close>

definition pad2 :: "nat \<Rightarrow> string" where
  "pad2 n = (if n < 10 then ''0'' @ str_nat n else str_nat n)"

text \<open>
  \<^verbatim>\<open>
  hours = eta_minutes // 60
  minutes = eta_minutes % 60
  _printer_cache['eta'] = f"{hours:02d}:{minutes:02d}"
  \<close>
  reached with \<^verbatim>\<open>remaining > 0\<close>. The format code \<^verbatim>\<open>d\<close> raises \<^verbatim>\<open>ValueError\<close> on a float.
\<close>

fun format_eta :: "jval \<Rightarrow> pyexn + string" where
  "format_eta (JInt n) = Inr (pad2 (nat (n div 60)) @ '':'' @ pad2 (nat (n mod 60)))"
| "format_eta (JBool b) =
     Inr (pad2 (nat ((if b then 1 else 0) div 60)) @ '':'' @ pad2 (nat ((if b then 1 else 0) mod 60)))"
| "format_eta (JFloat f) = Inl ValueError"
| "format_eta JNull = Inl TypeError"
| "format_eta (JStr s) = Inl TypeError"
| "format_eta (JArr xs) = Inl TypeError"
| "format_eta (JObj kvs) = Inl TypeError"

subsection \<open>Configuration, cache and the outside world\<close>

text \<open>
  The module constants read from the environment, and whether the optional imports
  (\<^verbatim>\<open>paho.mqtt.client\<close>, \<^verbatim>\<open>requests\<close>) succeed.
\<close>

record printer_config =
  PRINTER_IP :: string
  PRINTER_ACCESS_CODE :: string
  PRINTER_SERIAL :: string
  MQTT_AVAILABLE :: bool
  REQUESTS_AVAILABLE :: bool

text \<open>
  \<^verbatim>\<open>_printer_cache\<close>. \<^verbatim>\<open>last_update\<close> is \<^verbatim>\<open>None\<close> or the ISO text of a
  \<^verbatim>\<open>datetime.now()\<close>, read back by \<^verbatim>\<open>fromisoformat\<close>: a time in microseconds.
\<close>

record printer_cache =
  c_status :: jval
  c_jobName :: jval
  c_progress :: jval
  c_eta :: jval
  c_nozzleTemp :: jval
  c_bedTemp :: jval
  c_filament :: jval
  c_alert :: jval
  c_last_update :: "int option"
  c_connected :: bool
  c_mode :: string

definition initial_cache :: printer_cache where
  "initial_cache =
     \<lparr>c_status = JStr ''IDLE'', c_jobName = JNull, c_progress = JInt 0, c_eta = JNull,
      c_nozzleTemp = JInt 0, c_bedTemp = JInt 0, c_filament = JNull, c_alert = JNull,
      c_last_update = None, c_connected = False, c_mode = ''unknown''\<rparr>"

text \<open>
  What the MQTT client's network thread calls back. A message carries the outcome of
  \<^verbatim>\<open>json.loads(msg.payload.decode('utf-8'))\<close>.
\<close>

datatype mqtt_event = OnConnect int | OnMessage "pyexn + jval" | OnDisconnect int

record http_response =
  status_code :: int
  json_body :: "pyexn + jval"

datatype pcall =
    Now
  | TimeTime
  | ClientNew string
  | ClientConnect string
  | ClientSleep nat
  | Subscribe string
  | Publish string jval
  | ConnectEx string nat
  | HttpGet string

text \<open>
  The capabilities of the module. \<open>now\<close> is \<^verbatim>\<open>datetime.now()\<close> in microseconds,
  \<open>time_time\<close> is \<^verbatim>\<open>int(time.time())\<close>; \<open>client_new\<close> is \<^verbatim>\<open>mqtt.Client(client_id=...)\<close>;
  \<open>client_connect\<close> is the run of \<^verbatim>\<open>username_pw_set\<close>, \<^verbatim>\<open>tls_set\<close>, \<^verbatim>\<open>connect\<close> and
  \<^verbatim>\<open>loop_start\<close>; \<open>client_sleep\<close> is \<^verbatim>\<open>time.sleep\<close> while the client's thread runs,
  with the callbacks that fire meanwhile; \<open>connect_ex\<close> is the socket probe of
  \<^verbatim>\<open>check_printer_reachable\<close>; \<open>http_get\<close> is \<^verbatim>\<open>requests.get(url, timeout=3)\<close>.
\<close>

record 'w pr_ext =
  now :: "'w \<Rightarrow> int \<times> 'w"
  time_time :: "'w \<Rightarrow> int \<times> 'w"
  client_new :: "string \<Rightarrow> 'w \<Rightarrow> (pyexn + unit) \<times> 'w"
  client_connect :: "string \<Rightarrow> 'w \<Rightarrow> (pyexn + unit) \<times> 'w"
  client_sleep :: "nat \<Rightarrow> 'w \<Rightarrow> mqtt_event list \<times> 'w"
  subscribe :: "string \<Rightarrow> 'w \<Rightarrow> 'w"
  publish :: "string \<Rightarrow> jval \<Rightarrow> 'w \<Rightarrow> (pyexn + unit) \<times> 'w"
  connect_ex :: "string \<Rightarrow> nat \<Rightarrow> 'w \<Rightarrow> (pyexn + int) \<times> 'w"
  http_get :: "string \<Rightarrow> 'w \<Rightarrow> (pyexn + http_response) \<times> 'w"

text \<open>
  The state of the module: the world, the log of external calls, the cache, whether
  \<^verbatim>\<open>_mqtt_client\<close> is set, and \<^verbatim>\<open>_mqtt_connected\<close>.
\<close>

record 'w pstate =
  pworld :: 'w
  ptrace :: "pcall list"
  cache :: printer_cache
  mqtt_client :: bool
  mqtt_connected :: bool

definition do_now :: "'w pr_ext \<Rightarrow> 'w pstate \<Rightarrow> int \<times> 'w pstate" where
  "do_now e st =
     (case now e (pworld st) of
        (t, w') \<Rightarrow> (t, st\<lparr>pworld := w', ptrace := ptrace st @ [Now]\<rparr>))"

definition do_time_time :: "'w pr_ext \<Rightarrow> 'w pstate \<Rightarrow> int \<times> 'w pstate" where
  "do_time_time e st =
     (case time_time e (pworld st) of
        (t, w') \<Rightarrow> (t, st\<lparr>pworld := w', ptrace := ptrace st @ [TimeTime]\<rparr>))"

definition do_client_new :: "'w pr_ext \<Rightarrow> string \<Rightarrow> 'w pstate \<Rightarrow> (pyexn + unit) \<times> 'w pstate" where
  "do_client_new e cid st =
     (case client_new e cid (pworld st) of
        (r, w') \<Rightarrow> (r, st\<lparr>pworld := w', ptrace := ptrace st @ [ClientNew cid]\<rparr>))"

definition do_client_connect :: "'w pr_ext \<Rightarrow> string \<Rightarrow> 'w pstate \<Rightarrow> (pyexn + unit) \<times> 'w pstate" where
  "do_client_connect e ip st =
     (case client_connect e ip (pworld st) of
        (r, w') \<Rightarrow> (r, st\<lparr>pworld := w', ptrace := ptrace st @ [ClientConnect ip]\<rparr>))"

definition do_client_sleep :: "'w pr_ext \<Rightarrow> nat \<Rightarrow> 'w pstate \<Rightarrow> mqtt_event list \<times> 'w pstate" where
  "do_client_sleep e n st =
     (case client_sleep e n (pworld st) of
        (evs, w') \<Rightarrow> (evs, st\<lparr>pworld := w', ptrace := ptrace st @ [ClientSleep n]\<rparr>))"

definition do_subscribe :: "'w pr_ext \<Rightarrow> string \<Rightarrow> 'w pstate \<Rightarrow> 'w pstate" where
  "do_subscribe e topic st =
     st\<lparr>pworld := subscribe e topic (pworld st), ptrace := ptrace st @ [Subscribe topic]\<rparr>"

definition do_publish :: "'w pr_ext \<Rightarrow> string \<Rightarrow> jval \<Rightarrow> 'w pstate \<Rightarrow> (pyexn + unit) \<times> 'w pstate" where
  "do_publish e topic payload st =
     (case publish e topic payload (pworld st) of
        (r, w') \<Rightarrow> (r, st\<lparr>pworld := w', ptrace := ptrace st @ [Publish topic payload]\<rparr>))"

definition do_connect_ex :: "'w pr_ext \<Rightarrow> string \<Rightarrow> nat \<Rightarrow> 'w pstate \<Rightarrow> (pyexn + int) \<times> 'w pstate" where
  "do_connect_ex e ip port st =
     (case connect_ex e ip port (pworld st) of
        (r, w') \<Rightarrow> (r, st\<lparr>pworld := w', ptrace := ptrace st @ [ConnectEx ip port]\<rparr>))"

definition do_http_get :: "'w pr_ext \<Rightarrow> string \<Rightarrow> 'w pstate \<Rightarrow> (pyexn + http_response) \<times> 'w pstate" where
  "do_http_get e url st =
     (case http_get e url (pworld st) of
        (r, w') \<Rightarrow> (r, st\<lparr>pworld := w', ptrace := ptrace st @ [HttpGet url]\<rparr>))"

subsection \<open>Merging an MQTT message\<close>

text \<open>
  One \<^verbatim>\<open>if key in data: section = data[key]; ...\<close> block. A raise leaves the cache as
  the statements before it made it.
\<close>

definition section_update ::
  "string \<Rightarrow> (jval \<Rightarrow> printer_cache \<Rightarrow> (pyexn + unit) \<times> printer_cache) \<Rightarrow> jval \<Rightarrow> printer_cache
     \<Rightarrow> (pyexn + unit) \<times> printer_cache" where
  "section_update key upd data c =
     (case py_in key data of
        Inl x \<Rightarrow> (Inl x, c)
      | Inr False \<Rightarrow> (Inr (), c)
      | Inr True \<Rightarrow>
          (case py_getitem data key of
             Inl x \<Rightarrow> (Inl x, c)
           | Inr d \<Rightarrow> upd d c))"

text \<open>
  \<^verbatim>\<open>
  _printer_cache['status'] = print_data.get('mc_print_stage', 'IDLE')
  _printer_cache['progress'] = print_data.get('mc_percent', 0)
  _printer_cache['jobName'] = print_data.get('subtask_name', None)
  remaining = print_data.get('mc_remaining_time', 0)
  if remaining > 0: ... _printer_cache['eta'] = f"{hours:02d}:{minutes:02d}"
  else: _printer_cache['eta'] = None
  \<close>
\<close>

definition update_print :: "jval \<Rightarrow> printer_cache \<Rightarrow> (pyexn + unit) \<times> printer_cache" where
  "update_print print_data c =
     (case py_get print_data ''mc_print_stage'' (JStr ''IDLE'') of
        Inl x \<Rightarrow> (Inl x, c)
      | Inr v1 \<Rightarrow>
          (case py_get print_data ''mc_percent'' (JInt 0) of
             Inl x \<Rightarrow> (Inl x, c\<lparr>c_status := v1\<rparr>)
           | Inr v2 \<Rightarrow>
               (case py_get print_data ''subtask_name'' JNull of
                  Inl x \<Rightarrow> (Inl x, c\<lparr>c_status := v1, c_progress := v2\<rparr>)
                | Inr v3 \<Rightarrow>
                    (let c3 = c\<lparr>c_status := v1, c_progress := v2, c_jobName := v3\<rparr>
                     in case py_get print_data ''mc_remaining_time'' (JInt 0) of
                          Inl x \<Rightarrow> (Inl x, c3)
                        | Inr remaining \<Rightarrow>
                            (case py_gt_zero remaining of
                               Inl x \<Rightarrow> (Inl x, c3)
                             | Inr False \<Rightarrow> (Inr (), c3\<lparr>c_eta := JNull\<rparr>)
                             | Inr True \<Rightarrow>
                                 (case format_eta remaining of
                                    Inl x \<Rightarrow> (Inl x, c3)
                                  | Inr s \<Rightarrow> (Inr (), c3\<lparr>c_eta := JStr s\<rparr>)))))))"

definition update_temperature :: "jval \<Rightarrow> printer_cache \<Rightarrow> (pyexn + unit) \<times> printer_cache" where
  "update_temperature temp_data c =
     (case py_get temp_data ''nozzle_temper'' (JInt 0) of
        Inl x \<Rightarrow> (Inl x, c)
      | Inr v1 \<Rightarrow>
          (case py_get temp_data ''bed_temper'' (JInt 0) of
             Inl x \<Rightarrow> (Inl x, c\<lparr>c_nozzleTemp := v1\<rparr>)
           | Inr v2 \<Rightarrow> (Inr (), c\<lparr>c_nozzleTemp := v1, c_bedTemp := v2\<rparr>)))"

definition update_ams :: "jval \<Rightarrow> printer_cache \<Rightarrow> (pyexn + unit) \<times> printer_cache" where
  "update_ams ams_data c =
     (case py_get ams_data ''tray_now'' (JStr ''--'') of
        Inl x \<Rightarrow> (Inl x, c)
      | Inr v \<Rightarrow> (Inr (), c\<lparr>c_filament := v\<rparr>))"

text \<open>The three blocks of \<^verbatim>\<open>update_printer_status_from_mqtt\<close>, on the cache alone.\<close>

definition mqtt_sections :: "jval \<Rightarrow> printer_cache \<Rightarrow> (pyexn + unit) \<times> printer_cache" where
  "mqtt_sections data c =
     (case section_update ''print'' update_print data c of
        (Inl x, c1) \<Rightarrow> (Inl x, c1)
      | (Inr u, c1) \<Rightarrow>
          (case section_update ''temperature'' update_temperature data c1 of
             (Inl x, c2) \<Rightarrow> (Inl x, c2)
           | (Inr u, c2) \<Rightarrow> section_update ''ams'' update_ams data c2))"

text \<open>
  \<^verbatim>\<open>update_printer_status_from_mqtt\<close>: the three blocks, then
  \<^verbatim>\<open>last_update = datetime.now().isoformat()\<close> and \<^verbatim>\<open>connected = True\<close>.
\<close>

definition update_printer_status_from_mqtt ::
  "'w pr_ext \<Rightarrow> jval \<Rightarrow> 'w pstate \<Rightarrow> (pyexn + unit) \<times> 'w pstate" where
  "update_printer_status_from_mqtt e data st =
     (case mqtt_sections data (cache st) of
        (Inl x, c1) \<Rightarrow> (Inl x, st\<lparr>cache := c1\<rparr>)
      | (Inr u, c1) \<Rightarrow>
          (case do_now e (st\<lparr>cache := c1\<rparr>) of
             (t, st1) \<Rightarrow>
               (Inr (), st1\<lparr>cache := (cache st1)\<lparr>c_last_update := Some t, c_connected := True\<rparr>\<rparr>)))"

subsection \<open>The MQTT callbacks\<close>

definition on_mqtt_connect :: "printer_config \<Rightarrow> 'w pr_ext \<Rightarrow> int \<Rightarrow> 'w pstate \<Rightarrow> 'w pstate" where
  "on_mqtt_connect cfg e rc st =
     (if rc = 0 then
        (let st1 = st\<lparr>mqtt_connected := True, cache := (cache st)\<lparr>c_mode := ''lan''\<rparr>\<rparr>
         in if PRINTER_SERIAL cfg \<noteq> [] then
              do_subscribe e (''device/'' @ PRINTER_SERIAL cfg @ ''/status'')
                (do_subscribe e (''device/'' @ PRINTER_SERIAL cfg @ ''/report'') st1)
            else st1)
      else st\<lparr>mqtt_connected := False\<rparr>)"

text \<open>\<^verbatim>\<open>on_mqtt_message\<close>: any exception of the parse or of the merge is printed.\<close>

definition on_mqtt_message :: "'w pr_ext \<Rightarrow> pyexn + jval \<Rightarrow> 'w pstate \<Rightarrow> 'w pstate" where
  "on_mqtt_message e msg st =
     (case msg of
        Inl x \<Rightarrow> st
      | Inr payload \<Rightarrow> snd (update_printer_status_from_mqtt e payload st))"

definition on_mqtt_disconnect :: "'w pstate \<Rightarrow> 'w pstate" where
  "on_mqtt_disconnect st = st\<lparr>mqtt_connected := False\<rparr>"

fun callback :: "printer_config \<Rightarrow> 'w pr_ext \<Rightarrow> mqtt_event \<Rightarrow> 'w pstate \<Rightarrow> 'w pstate" where
  "callback cfg e (OnConnect rc) st = on_mqtt_connect cfg e rc st"
| "callback cfg e (OnMessage msg) st = on_mqtt_message e msg st"
| "callback cfg e (OnDisconnect rc) st = on_mqtt_disconnect st"

text \<open>The callbacks that fire during one sleep, in their order.\<close>

fun callbacks :: "printer_config \<Rightarrow> 'w pr_ext \<Rightarrow> mqtt_event list \<Rightarrow> 'w pstate \<Rightarrow> 'w pstate" where
  "callbacks cfg e [] st = st"
| "callbacks cfg e (ev # evs) st = callbacks cfg e evs (callback cfg e ev st)"

subsection \<open>Connecting the MQTT client\<close>

text \<open>
  \<^verbatim>\<open>init_mqtt_client\<close>. A raise anywhere in the \<^verbatim>\<open>try\<close> block answers \<^verbatim>\<open>False\<close>; the
  client object stays assigned once \<^verbatim>\<open>mqtt.Client(...)\<close> has returned.
\<close>

definition init_mqtt_client :: "printer_config \<Rightarrow> 'w pr_ext \<Rightarrow> 'w pstate \<Rightarrow> bool \<times> 'w pstate" where
  "init_mqtt_client cfg e st =
     (if \<not> MQTT_AVAILABLE cfg then (False, st)
      else if PRINTER_IP cfg = [] then (False, st)
      else if PRINTER_SERIAL cfg = [] \<or> PRINTER_ACCESS_CODE cfg = [] then (False, st)
      else if mqtt_client st \<and> mqtt_connected st then (True, st)
      else
        (case do_time_time e st of
           (t, st1) \<Rightarrow>
             (case do_client_new e (''wtl-s-lcars-'' @ str_int t) st1 of
                (Inl x, st2) \<Rightarrow> (False, st2)
              | (Inr u, st2) \<Rightarrow>
                  (case do_client_connect e (PRINTER_IP cfg) (st2\<lparr>mqtt_client := True\<rparr>) of
                     (Inl x, st3) \<Rightarrow> (False, st3)
                   | (Inr u, st3) \<Rightarrow>
                       (case do_client_sleep e 2 st3 of
                          (evs, st4) \<Rightarrow>
                            (let st5 = callbacks cfg e evs st4
                             in (mqtt_connected st5, st5)))))))"

subsection \<open>Polling over HTTP\<close>

definition check_printer_reachable :: "'w pr_ext \<Rightarrow> string \<Rightarrow> 'w pstate \<Rightarrow> bool \<times> 'w pstate" where
  "check_printer_reachable e ip st =
     (case do_connect_ex e ip 80 st of
        (Inl x, st1) \<Rightarrow> (False, st1)
      | (Inr result, st1) \<Rightarrow> (result = 0, st1))"

text \<open>
  \<^verbatim>\<open>update_printer_status_from_http\<close>: every field is assigned, a missing key by its
  default. The first \<^verbatim>\<open>data.get\<close> raises on a value that is no dict, before any
  assignment.
\<close>

definition update_printer_status_from_http ::
  "'w pr_ext \<Rightarrow> jval \<Rightarrow> 'w pstate \<Rightarrow> (pyexn + unit) \<times> 'w pstate" where
  "update_printer_status_from_http e data st =
     (case py_get data ''status'' (JStr ''IDLE'') of
        Inl x \<Rightarrow> (Inl x, st)
      | Inr v1 \<Rightarrow>
          (case py_get data ''progress'' (JInt 0) of
             Inl x \<Rightarrow> (Inl x, st\<lparr>cache := (cache st)\<lparr>c_status := v1\<rparr>\<rparr>)
           | Inr v2 \<Rightarrow>
               (case py_get data ''job_name'' JNull of
                  Inl x \<Rightarrow> (Inl x, st\<lparr>cache := (cache st)\<lparr>c_status := v1, c_progress := v2\<rparr>\<rparr>)
                | Inr v3 \<Rightarrow>
                    (case py_get data ''nozzle_temp'' (JInt 0) of
                       Inl x \<Rightarrow>
                         (Inl x, st\<lparr>cache := (cache st)
                                   \<lparr>c_status := v1, c_progress := v2, c_jobName := v3\<rparr>\<rparr>)
                     | Inr v4 \<Rightarrow>
                         (case py_get data ''bed_temp'' (JInt 0) of
                            Inl x \<Rightarrow>
                              (Inl x, st\<lparr>cache := (cache st)
                                        \<lparr>c_status := v1, c_progress := v2, c_jobName := v3,
                                         c_nozzleTemp := v4\<rparr>\<rparr>)
                          | Inr v5 \<Rightarrow>
                              (case do_now e st of
                                 (t, st1) \<Rightarrow>
                                   (Inr (),
                                    st1\<lparr>cache := (cache st)
                                         \<lparr>c_status := v1, c_progress := v2, c_jobName := v3,
                                          c_nozzleTemp := v4, c_bedTemp := v5,
                                          c_last_update := Some t, c_connected := True\<rparr>\<rparr>)))))))"

definition endpoints :: "string \<Rightarrow> string list" where
  "endpoints ip =
     [''http://'' @ ip @ ''/api/v1/status'',
      ''http://'' @ ip @ ''/status'',
      ''http://'' @ ip @ ''/api/status'']"

text \<open>
  The loop of \<^verbatim>\<open>try_http_status\<close> over the endpoints. Any raise inside the loop body
  (\<^verbatim>\<open>requests.get\<close>, \<^verbatim>\<open>response.json()\<close>, the merge) goes on with the next endpoint.
\<close>

fun try_endpoints :: "'w pr_ext \<Rightarrow> string list \<Rightarrow> 'w pstate \<Rightarrow> bool \<times> 'w pstate" where
  "try_endpoints e [] st = (False, st)"
| "try_endpoints e (url # urls) st =
     (case do_http_get e url st of
        (Inl x, st1) \<Rightarrow> try_endpoints e urls st1
      | (Inr response, st1) \<Rightarrow>
          if status_code response = 200 then
            (case json_body response of
               Inl x \<Rightarrow> try_endpoints e urls st1
             | Inr data \<Rightarrow>
                 (case update_printer_status_from_http e data st1 of
                    (Inl x, st2) \<Rightarrow> try_endpoints e urls st2
                  | (Inr u, st2) \<Rightarrow> (True, st2\<lparr>cache := (cache st2)\<lparr>c_mode := ''cloud''\<rparr>\<rparr>)))
          else try_endpoints e urls st1)"

text \<open>\<^verbatim>\<open>try_http_status\<close>: without \<^verbatim>\<open>requests\<close> the import raises and the answer is \<^verbatim>\<open>False\<close>.\<close>

definition try_http_status :: "printer_config \<Rightarrow> 'w pr_ext \<Rightarrow> string \<Rightarrow> 'w pstate \<Rightarrow> bool \<times> 'w pstate" where
  "try_http_status cfg e ip st =
     (if REQUESTS_AVAILABLE cfg then try_endpoints e (endpoints ip) st else (False, st))"

subsection \<open>Reading the status\<close>

text \<open>
  The staleness check that opens \<^verbatim>\<open>get_printer_status\<close>:
  \<^verbatim>\<open>
  if _printer_cache.get('last_update'):
      last_update = datetime.fromisoformat(_printer_cache['last_update'])
      if datetime.now() - last_update > timedelta(seconds=60):
          _printer_cache['connected'] = False
  \<close>
\<close>

definition staleness_check :: "'w pr_ext \<Rightarrow> 'w pstate \<Rightarrow> 'w pstate" where
  "staleness_check e st =
     (case c_last_update (cache st) of
        None \<Rightarrow> st
      | Some last_update \<Rightarrow>
          (case do_now e st of
             (t, st1) \<Rightarrow>
               if t - last_update > 60000000
               then st1\<lparr>cache := (cache st1)\<lparr>c_connected := False\<rparr>\<rparr>
               else st1))"

text \<open>
  \<^verbatim>\<open>get_printer_status\<close> returns the cache dictionary itself: the snapshot is the cache
  of the state it leaves.
\<close>

definition get_printer_status :: "printer_config \<Rightarrow> 'w pr_ext \<Rightarrow> 'w pstate \<Rightarrow> printer_cache \<times> 'w pstate" where
  "get_printer_status cfg e st =
     (let st0 = staleness_check e st
      in if PRINTER_IP cfg = [] then (cache st0, st0)
         else
           (let st1 = (if \<not> mqtt_connected st0 then snd (init_mqtt_client cfg e st0) else st0)
            in if mqtt_connected st1 then (cache st1, st1)
               else
                 (case check_printer_reachable e (PRINTER_IP cfg) st1 of
                    (True, st2) \<Rightarrow>
                      (let st3 = snd (try_http_status cfg e (PRINTER_IP cfg) st2)
                       in (cache st3, st3))
                  | (False, st2) \<Rightarrow> (cache st2, st2))))"

text \<open>The body of the \<^verbatim>\<open>GET /status\<close> response.\<close>

definition status_fields :: "printer_cache \<Rightarrow> (string \<times> jval) list" where
  "status_fields c =
     [(''status'', c_status c),
      (''jobName'', c_jobName c),
      (''progress'', c_progress c),
      (''eta'', c_eta c),
      (''nozzleTemp'', c_nozzleTemp c),
      (''bedTemp'', c_bedTemp c),
      (''filament'', c_filament c),
      (''alert'', c_alert c),
      (''connected'', JBool (c_connected c)),
      (''mode'', JStr (c_mode c))]"

text \<open>
  \<^verbatim>\<open>get_status\<close>. Its \<^verbatim>\<open>except Exception\<close> branch (status 500) has no raise to catch:
  every raising call below it is caught where it is made, and the cache always has the
  keys that are read.
\<close>

definition get_status :: "printer_config \<Rightarrow> 'w pr_ext \<Rightarrow> 'w pstate \<Rightarrow> response \<times> 'w pstate" where
  "get_status cfg e st =
     (case get_printer_status cfg e st of
        (status, st1) \<Rightarrow> (jsonify (status_fields status), st1))"

subsection \<open>The manual update\<close>

text \<open>
  The keys \<^verbatim>\<open>update_status\<close> looks for. Each is the key of the request body and of
  the cache alike: \<^verbatim>\<open>_printer_cache[key] = data[key]\<close>.
\<close>

datatype field = Status | JobName | Progress | Eta | NozzleTemp | BedTemp | Filament

fun key_of :: "field \<Rightarrow> string" where
  "key_of Status = ''status''"
| "key_of JobName = ''jobName''"
| "key_of Progress = ''progress''"
| "key_of Eta = ''eta''"
| "key_of NozzleTemp = ''nozzleTemp''"
| "key_of BedTemp = ''bedTemp''"
| "key_of Filament = ''filament''"

fun set_field :: "field \<Rightarrow> jval \<Rightarrow> printer_cache \<Rightarrow> printer_cache" where
  "set_field Status v c = c\<lparr>c_status := v\<rparr>"
| "set_field JobName v c = c\<lparr>c_jobName := v\<rparr>"
| "set_field Progress v c = c\<lparr>c_progress := v\<rparr>"
| "set_field Eta v c = c\<lparr>c_eta := v\<rparr>"
| "set_field NozzleTemp v c = c\<lparr>c_nozzleTemp := v\<rparr>"
| "set_field BedTemp v c = c\<lparr>c_bedTemp := v\<rparr>"
| "set_field Filament v c = c\<lparr>c_filament := v\<rparr>"

fun get_field :: "field \<Rightarrow> printer_cache \<Rightarrow> jval" where
  "get_field Status c = c_status c"
| "get_field JobName c = c_jobName c"
| "get_field Progress c = c_progress c"
| "get_field Eta c = c_eta c"
| "get_field NozzleTemp c = c_nozzleTemp c"
| "get_field BedTemp c = c_bedTemp c"
| "get_field Filament c = c_filament c"

definition manual_fields :: "field list" where
  "manual_fields = [Status, JobName, Progress, Eta, NozzleTemp, BedTemp, Filament]"

text \<open>
  The run of \<^verbatim>\<open>if key in data: _printer_cache[key] = data[key]\<close> statements, in the
  order of the source; a raise ends it with the assignments made so far.
\<close>

fun overlay :: "field list \<Rightarrow> jval \<Rightarrow> printer_cache \<Rightarrow> (pyexn + unit) \<times> printer_cache" where
  "overlay [] data c = (Inr (), c)"
| "overlay (f # fs) data c =
     (case py_in (key_of f) data of
        Inl x \<Rightarrow> (Inl x, c)
      | Inr False \<Rightarrow> overlay fs data c
      | Inr True \<Rightarrow>
          (case py_getitem data (key_of f) of
             Inl x \<Rightarrow> (Inl x, c)
           | Inr v \<Rightarrow> overlay fs data (set_field f v c)))"

text \<open>
  \<^verbatim>\<open>update_status\<close> (\<^verbatim>\<open>POST /status\<close>). The argument is the outcome of
  \<^verbatim>\<open>request.get_json()\<close>.
\<close>

definition update_status :: "'w pr_ext \<Rightarrow> pyexn + jval \<Rightarrow> 'w pstate \<Rightarrow> response \<times> 'w pstate" where
  "update_status e body_json st =
     (case body_json of
        Inl x \<Rightarrow> (jsonify_code [(''error'', JStr (str_exn x))] 500, st)
      | Inr data \<Rightarrow>
          (case overlay manual_fields data (cache st) of
             (Inl x, c1) \<Rightarrow> (jsonify_code [(''error'', JStr (str_exn x))] 500, st\<lparr>cache := c1\<rparr>)
           | (Inr u, c1) \<Rightarrow>
               (case do_now e (st\<lparr>cache := c1\<rparr>) of
                  (t, st1) \<Rightarrow>
                    (jsonify [(''status'', JStr ''updated'')],
                     st1\<lparr>cache := (cache st1)
                          \<lparr>c_last_update := Some t, c_connected := True, c_mode := ''manual''\<rparr>\<rparr>))))"

subsection \<open>Control commands\<close>

text \<open>\<^verbatim>\<open>payload["pushing"].update(params)\<close> on the association list of the dict.\<close>

fun dict_set :: "string \<Rightarrow> jval \<Rightarrow> (string \<times> jval) list \<Rightarrow> (string \<times> jval) list" where
  "dict_set k v [] = [(k, v)]"
| "dict_set k v ((k', v') # kvs) = (if k = k' then (k, v) # kvs else (k', v') # dict_set k v kvs)"

fun dict_update :: "(string \<times> jval) list \<Rightarrow> (string \<times> jval) list \<Rightarrow> (string \<times> jval) list" where
  "dict_update d [] = d"
| "dict_update d ((k, v) # ps) = dict_update (dict_set k v d) ps"

text \<open>
  \<^verbatim>\<open>send_mqtt_command\<close>. The payload is logged as the dict handed to \<^verbatim>\<open>json.dumps\<close>.
\<close>

definition send_mqtt_command ::
  "printer_config \<Rightarrow> 'w pr_ext \<Rightarrow> string \<Rightarrow> (string \<times> jval) list option \<Rightarrow> 'w pstate \<Rightarrow> bool \<times> 'w pstate" where
  "send_mqtt_command cfg e command params st =
     (if \<not> mqtt_connected st \<or> \<not> mqtt_client st then (False, st)
      else
        (case do_time_time e st of
           (t, st1) \<Rightarrow>
             (let pushing = [(''sequence_id'', JStr (str_int t)), (''command'', JStr command)];
                  pushing' = (case params of
                                None \<Rightarrow> pushing
                              | Some ps \<Rightarrow> if ps = [] then pushing else dict_update pushing ps)
              in case do_publish e (''device/'' @ PRINTER_SERIAL cfg @ ''/request'')
                        (JObj [(''pushing'', JObj pushing')]) st1 of
                   (Inl x, st2) \<Rightarrow> (False, st2)
                 | (Inr u, st2) \<Rightarrow> (True, st2))))"

definition command_map :: "(string \<times> string) list" where
  "command_map = [(''pause'', ''pause''), (''resume'', ''resume''), (''stop'', ''stop'')]"

definition control_printer :: "printer_config \<Rightarrow> 'w pr_ext \<Rightarrow> string \<Rightarrow> 'w pstate \<Rightarrow> bool \<times> 'w pstate" where
  "control_printer cfg e action st =
     (if \<not> mqtt_connected st then (False, st)
      else
        (case map_of command_map action of
           None \<Rightarrow> (False, st)
         | Some command \<Rightarrow>
             if command = [] then (False, st) else send_mqtt_command cfg e command None st))"

definition lan_only_error :: response where
  "lan_only_error =
     jsonify_code
       [(''error'', JStr ''Printer control requires LAN Only Mode. Your printer appears to be in cloud mode.''),
        (''note'', JStr ''To control the printer, enable LAN Only Mode in Settings > Network. You can still monitor status in cloud mode.'')]
       400"

text \<open>
  The three control endpoints differ in the action and in the words of their answers:
  \<^verbatim>\<open>pause\<close>, \<^verbatim>\<open>resume\<close> and \<^verbatim>\<open>stop\<close> of the source.
\<close>

definition control_endpoint ::
  "string \<Rightarrow> string \<Rightarrow> string \<Rightarrow> printer_config \<Rightarrow> 'w pr_ext \<Rightarrow> 'w pstate \<Rightarrow> response \<times> 'w pstate" where
  "control_endpoint action done failed cfg e st =
     (if \<not> mqtt_connected st then (lan_only_error, st)
      else
        (case control_printer cfg e action st of
           (True, st1) \<Rightarrow> (jsonify [(''status'', JStr done)], st1)
         | (False, st1) \<Rightarrow> (jsonify_code [(''error'', JStr failed)] 500, st1)))"

definition pause :: "printer_config \<Rightarrow> 'w pr_ext \<Rightarrow> 'w pstate \<Rightarrow> response \<times> 'w pstate" where
  "pause = control_endpoint ''pause'' ''paused'' ''Failed to pause printer''"

definition resume :: "printer_config \<Rightarrow> 'w pr_ext \<Rightarrow> 'w pstate \<Rightarrow> response \<times> 'w pstate" where
  "resume = control_endpoint ''resume'' ''resumed'' ''Failed to resume printer''"

definition printer_stop :: "printer_config \<Rightarrow> 'w pr_ext \<Rightarrow> 'w pstate \<Rightarrow> response \<times> 'w pstate" where
  "printer_stop = control_endpoint ''stop'' ''stopped'' ''Failed to stop printer''"

subsection \<open>Vocabulary of the statements\<close>

text \<open>The values a status read shows, apart from the trust flag and the mode.\<close>

definition data_fields :: "printer_cache \<Rightarrow> jval \<times> jval \<times> jval \<times> jval \<times> jval \<times> jval \<times> jval \<times> jval" where
  "data_fields c =
     (c_status c, c_jobName c, c_progress c, c_eta c, c_nozzleTemp c, c_bedTemp c,
      c_filament c, c_alert c)"

text \<open>A sequence of manual updates, each a JSON object, applied one request after the other.\<close>

fun manual_merges :: "'w pr_ext \<Rightarrow> (string \<times> jval) list list \<Rightarrow> 'w pstate \<Rightarrow> 'w pstate" where
  "manual_merges e [] st = st"
| "manual_merges e (d # ds) st = manual_merges e ds (snd (update_status e (Inr (JObj d)) st))"

text \<open>\<^verbatim>\<open>d.get(k, default)\<close> on the association list of a dict.\<close>

definition get_or :: "(string \<times> jval) list \<Rightarrow> string \<Rightarrow> jval \<Rightarrow> jval" where
  "get_or kvs k d = (case map_of kvs k of None \<Rightarrow> d | Some v \<Rightarrow> v)"

text \<open>
  The section of a pushed message that carries a field, the key of the field inside its
  section and the default \<^verbatim>\<open>update_printer_status_from_mqtt\<close> assigns when the section
  lacks the key (the remaining time stands for the eta, which is computed from it).
\<close>

fun section_of :: "field \<Rightarrow> string" where
  "section_of Status = ''print''"
| "section_of JobName = ''print''"
| "section_of Progress = ''print''"
| "section_of Eta = ''print''"
| "section_of NozzleTemp = ''temperature''"
| "section_of BedTemp = ''temperature''"
| "section_of Filament = ''ams''"

fun mqtt_key_of :: "field \<Rightarrow> string" where
  "mqtt_key_of Status = ''mc_print_stage''"
| "mqtt_key_of JobName = ''subtask_name''"
| "mqtt_key_of Progress = ''mc_percent''"
| "mqtt_key_of Eta = ''mc_remaining_time''"
| "mqtt_key_of NozzleTemp = ''nozzle_temper''"
| "mqtt_key_of BedTemp = ''bed_temper''"
| "mqtt_key_of Filament = ''tray_now''"

fun mqtt_default :: "field \<Rightarrow> jval" where
  "mqtt_default Status = JStr ''IDLE''"
| "mqtt_default JobName = JNull"
| "mqtt_default Progress = JInt 0"
| "mqtt_default Eta = JInt 0"
| "mqtt_default NozzleTemp = JInt 0"
| "mqtt_default BedTemp = JInt 0"
| "mqtt_default Filament = JStr ''--''"

text \<open>Two caches that differ in the mode at most.\<close>

text \<open>
  The eta the print section assigns, from the remaining time it reports: the text
  \<^verbatim>\<open>HH:MM\<close> for a positive number of minutes, \<^verbatim>\<open>None\<close> otherwise.
\<close>

definition eta_of :: "jval \<Rightarrow> jval" where
  "eta_of remaining =
     (if py_gt_zero remaining = Inr True
      then (case format_eta remaining of Inl x \<Rightarrow> JNull | Inr s \<Rightarrow> JStr s)
      else JNull)"

text \<open>What a section that is the JSON object \<open>sd\<close> assigns to a field of the section.\<close>

fun mqtt_assigned :: "field \<Rightarrow> (string \<times> jval) list \<Rightarrow> jval" where
  "mqtt_assigned Eta sd = eta_of (get_or sd ''mc_remaining_time'' (JInt 0))"
| "mqtt_assigned Status sd = get_or sd ''mc_print_stage'' (JStr ''IDLE'')"
| "mqtt_assigned JobName sd = get_or sd ''subtask_name'' JNull"
| "mqtt_assigned Progress sd = get_or sd ''mc_percent'' (JInt 0)"
| "mqtt_assigned NozzleTemp sd = get_or sd ''nozzle_temper'' (JInt 0)"
| "mqtt_assigned BedTemp sd = get_or sd ''bed_temper'' (JInt 0)"
| "mqtt_assigned Filament sd = get_or sd ''tray_now'' (JStr ''--'')"

text \<open>
  The key of an HTTP poll response that \<^verbatim>\<open>update_printer_status_from_http\<close> reads for a
  field, if it reads one, and what it assigns when the response is the JSON object
  \<open>kvs\<close>.
\<close>

fun http_key_of :: "field \<Rightarrow> string option" where
  "http_key_of Status = Some ''status''"
| "http_key_of JobName = Some ''job_name''"
| "http_key_of Progress = Some ''progress''"
| "http_key_of NozzleTemp = Some ''nozzle_temp''"
| "http_key_of BedTemp = Some ''bed_temp''"
| "http_key_of Eta = None"
| "http_key_of Filament = None"

definition same_but_mode :: "printer_cache \<Rightarrow> printer_cache \<Rightarrow> bool" where
  "same_but_mode c c' = (c' = c\<lparr>c_mode := c_mode c'\<rparr>)"


text \<open>Whether the cache is older than the staleness threshold of 60 seconds at a read.\<close>

definition stale :: "'w pr_ext \<Rightarrow> 'w pstate \<Rightarrow> bool" where
  "stale e st =
     (case c_last_update (cache st) of
        None \<Rightarrow> False
      | Some last_update \<Rightarrow> fst (now e (pworld st)) - last_update > 60000000)"

text \<open>A payload the merge rejects before it has assigned anything.\<close>

definition inert :: "jval \<Rightarrow> bool" where
  "inert payload = (\<forall>c. \<exists>x. mqtt_sections payload c = (Inl x, c))"

text \<open>
  A callback that delivers data: a message whose payload decodes and is not rejected
  by the merge at once.
\<close>

fun delivers :: "mqtt_event \<Rightarrow> bool" where
  "delivers (OnMessage (Inr payload)) = (\<not> inert payload)"
| "delivers (OnMessage (Inl x)) = False"
| "delivers (OnConnect rc) = False"
| "delivers (OnDisconnect rc) = False"

fun is_dict :: "jval \<Rightarrow> bool" where
  "is_dict (JObj kvs) = True"
| "is_dict JNull = False"
| "is_dict (JBool b) = False"
| "is_dict (JInt n) = False"
| "is_dict (JFloat f) = False"
| "is_dict (JStr s) = False"
| "is_dict (JArr xs) = False"

text \<open>An HTTP reply the poll can merge: status 200 and a body that parses to a JSON object.\<close>

definition answers :: "http_response \<Rightarrow> bool" where
  "answers r =
     (status_code r = 200 \<and> (case json_body r of Inl x \<Rightarrow> False | Inr data \<Rightarrow> is_dict data))"

text \<open>
  Concrete worlds of the printer; the world is the clock in microseconds. \<open>offline\<close>:
  no broker, no route to the printer. \<open>cloud\<close>: the printer answers every HTTP status
  query with 200 and an empty JSON object. \<open>garbled\<close>: the broker accepts the
  connection and pushes a message whose payload does not decode and one whose payload
  is a number, and every HTTP status query is answered with 200 and a body that is no
  JSON.
\<close>

definition offline :: "int pr_ext" where
  "offline =
     \<lparr>now = (\<lambda>w. (w, w)),
      time_time = (\<lambda>w. (w div 1000000, w)),
      client_new = (\<lambda>cid w. (Inl (PyExn ''unavailable''), w)),
      client_connect = (\<lambda>ip w. (Inl (PyExn ''unreachable''), w)),
      client_sleep = (\<lambda>n w. ([], w + int n * 1000000)),
      subscribe = (\<lambda>topic w. w),
      publish = (\<lambda>topic payload w. (Inl (PyExn ''not connected''), w)),
      connect_ex = (\<lambda>ip port w. (Inr 111, w)),
      http_get = (\<lambda>url w. (Inl (PyExn ''unreachable''), w))\<rparr>"

definition cloud :: "int pr_ext" where
  "cloud =
     \<lparr>now = (\<lambda>w. (w, w)),
      time_time = (\<lambda>w. (w div 1000000, w)),
      client_new = (\<lambda>cid w. (Inl (PyExn ''unavailable''), w)),
      client_connect = (\<lambda>ip w. (Inl (PyExn ''unreachable''), w)),
      client_sleep = (\<lambda>n w. ([], w + int n * 1000000)),
      subscribe = (\<lambda>topic w. w),
      publish = (\<lambda>topic payload w. (Inl (PyExn ''not connected''), w)),
      connect_ex = (\<lambda>ip port w. (Inr 0, w)),
      http_get = (\<lambda>url w. (Inr \<lparr>status_code = 200, json_body = Inr (JObj [])\<rparr>, w))\<rparr>"

definition garbled :: "int pr_ext" where
  "garbled =
     \<lparr>now = (\<lambda>w. (w, w)),
      time_time = (\<lambda>w. (w div 1000000, w)),
      client_new = (\<lambda>cid w. (Inr (), w)),
      client_connect = (\<lambda>ip w. (Inr (), w)),
      client_sleep =
        (\<lambda>n w. ([OnMessage (Inl (PyExn ''invalid start byte'')), OnMessage (Inr (JInt 7))],
                 w + int n * 1000000)),
      subscribe = (\<lambda>topic w. w),
      publish = (\<lambda>topic payload w. (Inl (PyExn ''not connected''), w)),
      connect_ex = (\<lambda>ip port w. (Inr 0, w)),
      http_get = (\<lambda>url w. (Inr \<lparr>status_code = 200, json_body = Inl (PyExn ''Expecting value'')\<rparr>, w))\<rparr>"

definition lan_config :: printer_config where
  "lan_config =
     \<lparr>PRINTER_IP = ''192.168.1.50'', PRINTER_ACCESS_CODE = ''12345678'',
      PRINTER_SERIAL = ''01P00A123456789'', MQTT_AVAILABLE = True, REQUESTS_AVAILABLE = True\<rparr>"

definition cloud_config :: printer_config where
  "cloud_config =
     \<lparr>PRINTER_IP = ''192.168.1.50'', PRINTER_ACCESS_CODE = [], PRINTER_SERIAL = [],
      MQTT_AVAILABLE = True, REQUESTS_AVAILABLE = True\<rparr>"

text \<open>A cache last written at time 0 while a job was printing.\<close>

definition printing_cache :: printer_cache where
  "printing_cache =
     \<lparr>c_status = JStr ''RUNNING'', c_jobName = JStr ''benchy.3mf'', c_progress = JInt 42,
      c_eta = JStr ''01:30'', c_nozzleTemp = JInt 215, c_bedTemp = JInt 60,
      c_filament = JStr ''2'', c_alert = JNull,
      c_last_update = Some 0, c_connected = True, c_mode = ''manual''\<rparr>"

text \<open>The module state with the cache \<open>c\<close> and no MQTT client, at time \<open>w\<close>.\<close>

definition pinit :: "int \<Rightarrow> printer_cache \<Rightarrow> int pstate" where
  "pinit w c = \<lparr>pworld = w, ptrace = [], cache = c, mqtt_client = False, mqtt_connected = False\<rparr>"

section \<open>Theorems\<close>

subsection \<open>The log endpoint\<close>

lemma slice_from_neg: "0 < n \<Longrightarrow> slice_from xs (- n) = drop (length xs - nat n) xs"
  by (simp add: slice_from_def nat_diff_distrib' nat_add_distrib)

lemma recent_lines_positive:
  assumes "1 \<le> requested"
  shows "recent_lines log_lines requested
           = drop (length log_lines - nat (min requested 500)) log_lines"
proof (cases "int (length log_lines) > min requested 500")
  case True
  with assms show ?thesis by (simp add: recent_lines_def Let_def slice_from_neg)
next
  case False
  then have "length log_lines - nat (min requested 500) = 0" by simp
  with False show ?thesis by (simp add: recent_lines_def Let_def)
qed


text \<open>
  For a request of at least one line the endpoint answers with the last
  \<open>min (requested, 500, total)\<close> lines.
\<close>

lemma recent_lines_length:
  assumes "1 \<le> requested"
  shows "int (length (recent_lines log_lines requested))
           = min (min requested 500) (int (length log_lines))"
  using assms by (simp add: recent_lines_positive)

text \<open>
  C10. A request for zero lines on a log of 501 lines: \<^verbatim>\<open>log_lines[-0:]\<close> is the whole
  list, so the response carries all 501 lines, more than the limit of 500 and not the
  last \<open>min (0, 500, 501) = 0\<close> lines.
\<close>

theorem get_log_zero_lines_returns_whole_file:
  "fst (get_log scripted default_config (IntArg 0)
          (init [Path True, Lines (replicate 501 ''x'')]))
     = jsonify
         [(''status'', JStr ''ok''),
          (''lines'', JArr (replicate 501 (JStr ''x''))),
          (''total_lines'', JInt 501)]"
  by (simp add: get_log_def do_exists_def do_read_lines_def scripted_def init_def
      recent_lines_def slice_from_def)

subsection \<open>The call log of detection\<close>

lemma do_run_trace: "trace (snd (do_run e argv s)) = trace s @ [Run argv]"
  by (simp add: do_run_def split: prod.splits)

lemma do_exists_trace: "trace (snd (do_exists e p s)) = trace s @ [Exists p]"
  by (simp add: do_exists_def split: prod.splits)

lemma do_sleep_trace: "trace (do_sleep e n s) = trace s @ [Sleep n]"
  by (simp add: do_sleep_def)

lemma do_process_iter_trace: "trace (snd (do_process_iter e s)) = trace s @ [ProcessIter]"
  by (simp add: do_process_iter_def split: prod.splits)

lemma do_process_new_trace: "trace (snd (do_process_new e p s)) = trace s @ [ProcessNew p]"
  by (simp add: do_process_new_def split: prod.splits)

lemma do_terminate_trace: "trace (snd (do_terminate e p s)) = trace s @ [Terminate p]"
  by (simp add: do_terminate_def split: prod.splits)

lemma do_wait_proc_trace: "trace (snd (do_wait_proc e p s)) = trace s @ [WaitProc p]"
  by (simp add: do_wait_proc_def split: prod.splits)

lemma do_kill_trace: "trace (snd (do_kill e p s)) = trace s @ [Kill p]"
  by (simp add: do_kill_def split: prod.splits)

lemma probe_service_trace: "trace (snd (probe_service e cfg s)) = trace s @ [Run is_active_argv]"
  using do_run_trace [of e is_active_argv s]
  by (auto simp: probe_service_def split: prod.splits sum.splits)

lemma probe_screen_trace:
  "trace (snd (probe_screen e cfg s)) = trace s @ [Run (screen_ls_argv cfg)]"
  using do_run_trace [of e "screen_ls_argv cfg" s]
  by (auto simp: probe_screen_def split: prod.splits sum.splits)

lemma probe_process_trace: "trace (snd (probe_process e cfg s)) = trace s @ [ProcessIter]"
  using do_process_iter_trace [of e s]
  by (auto simp: probe_process_def split: prod.splits sum.splits)

lemma is_server_running_unfold:
  "is_server_running e cfg s =
     (let r1 = probe_service e cfg s;
          r2 = probe_screen e cfg (snd r1);
          r3 = probe_process e cfg (snd r2)
      in (find (\<lambda>x. x \<noteq> Negative) [fst r1, fst r2, fst r3] = Some Positive,
          if fst r1 \<noteq> Negative then snd r1
          else if fst r2 \<noteq> Negative then snd r2 else snd r3))"
  by (auto simp: is_server_running_def Let_def split: prod.splits signal.splits)

lemma is_server_running_trace:
  "trace (snd (is_server_running e cfg s))
     = trace s @ take (probes_run [fst (probe_service e cfg s),
                                  fst (probe_screen e cfg (snd (probe_service e cfg s))),
                                  fst (probe_process e cfg
                                         (snd (probe_screen e cfg (snd (probe_service e cfg s)))))])
                     (detect_calls cfg)"
  by (simp add: is_server_running_unfold Let_def probes_run_def detect_calls_def
      probe_service_trace probe_screen_trace probe_process_trace)

lemma step_of_probe [simp]:
  "step_of cfg (Run is_active_argv) = None"
  "step_of cfg (Run (screen_ls_argv cfg)) = None"
  "step_of cfg ProcessIter = None"
  "step_of cfg (Exists p) = None"
  "step_of cfg (Sleep n) = None"
  "step_of cfg (ProcessNew q) = None"
  "step_of cfg (WaitProc q) = None"
  by (simp_all add: step_of_def is_active_argv_def screen_ls_argv_def stop_argv_def
      rcon_stop_argv_def screen_stop_argv_def start_argv_def screen_start_argv_def)

lemma step_of_action [simp]:
  "step_of cfg (Run stop_argv) = Some ServiceStop"
  "step_of cfg (Run (rcon_stop_argv cfg ''/usr/bin/mcrcon'')) = Some ProtocolStop"
  "step_of cfg (Run (rcon_stop_argv cfg ''/usr/local/bin/mcrcon'')) = Some ProtocolStop"
  "step_of cfg (Run (screen_stop_argv cfg)) = Some ConsoleStop"
  "step_of cfg (Run start_argv) = Some ServiceStart"
  "step_of cfg (Run (screen_start_argv cfg)) = Some ScreenStart"
  "step_of cfg (Terminate q) = Some ForcedTerminate"
  "step_of cfg (Kill q) = Some ForcedKill"
  by (simp_all add: step_of_def stop_argv_def rcon_stop_argv_def screen_stop_argv_def
      start_argv_def screen_start_argv_def)

lemma actions_append [simp]: "actions cfg (xs @ ys) = actions cfg xs @ actions cfg ys"
  by (simp add: actions_def map_filter_def)

lemma actions_Nil [simp]: "actions cfg [] = []"
  by (simp add: actions_def map_filter_simps)

lemma actions_Cons:
  "actions cfg (c # cs) = (case step_of cfg c of None \<Rightarrow> actions cfg cs | Some a \<Rightarrow> a # actions cfg cs)"
  unfolding actions_def by (simp add: map_filter_simps)

lemma actions_detect_calls: "actions cfg (take n (detect_calls cfg)) = []"
proof -
  have "\<forall>c \<in> set (detect_calls cfg). step_of cfg c = None"
    by (simp add: detect_calls_def)
  then have "\<forall>c \<in> set (take n (detect_calls cfg)). step_of cfg c = None"
    by (meson in_set_takeD)
  then show ?thesis
    by (induction "take n (detect_calls cfg)" arbitrary: n)
       (auto simp: actions_def map_filter_def filter_empty_conv)
qed

lemma new_calls_append: "trace s' = trace s @ xs \<Longrightarrow> new_calls s s' = xs"
  by (simp add: new_calls_def)

lemma is_server_running_actions:
  "actions cfg (new_calls s (snd (is_server_running e cfg s))) = []"
  by (simp add: new_calls_append [OF is_server_running_trace] actions_detect_calls)


subsection \<open>Detection depends on the world only\<close>

lemma do_run_world:
  "fst (do_run e argv s) = fst (run e argv (world s))"
  "world (snd (do_run e argv s)) = snd (run e argv (world s))"
  by (simp_all add: do_run_def split: prod.splits)

lemma do_process_iter_world:
  "fst (do_process_iter e s) = fst (process_iter e (world s))"
  "world (snd (do_process_iter e s)) = snd (process_iter e (world s))"
  by (simp_all add: do_process_iter_def split: prod.splits)

lemma probe_service_world:
  "fst (probe_service e cfg s)
     = (case fst (run e is_active_argv (world s)) of
          Inl x \<Rightarrow> Failed
        | Inr r \<Rightarrow> if returncode r = 0 then Positive else Negative)"
  "world (snd (probe_service e cfg s)) = snd (run e is_active_argv (world s))"
  using do_run_world [of e is_active_argv s]
  by (auto simp: probe_service_def split: prod.splits sum.splits)

lemma probe_screen_world:
  "fst (probe_screen e cfg s)
     = (case fst (run e (screen_ls_argv cfg) (world s)) of
          Inl x \<Rightarrow> Failed
        | Inr r \<Rightarrow> if str_in (MC_SERVER_SCREEN cfg) (stdout r) then Positive else Negative)"
  "world (snd (probe_screen e cfg s)) = snd (run e (screen_ls_argv cfg) (world s))"
  using do_run_world [of e "screen_ls_argv cfg" s]
  by (auto simp: probe_screen_def split: prod.splits sum.splits)

lemma probe_process_world:
  "fst (probe_process e cfg s)
     = (case fst (process_iter e (world s)) of
          Inl x \<Rightarrow> Failed
        | Inr ps \<Rightarrow> if list_ex proc_matches ps then Positive else Negative)"
  "world (snd (probe_process e cfg s)) = snd (process_iter e (world s))"
  using do_process_iter_world [of e s]
  by (auto simp: probe_process_def split: prod.splits sum.splits)

lemma is_server_running_still:
  assumes run_pure: "\<forall>argv w. snd (run e argv w) = w"
      and iter_pure: "\<forall>w. snd (process_iter e w) = w"
  shows "world (snd (is_server_running e cfg s)) = world s"
    and "fst (is_server_running e cfg s)
           = (find (\<lambda>x. x \<noteq> Negative)
                [case fst (run e is_active_argv (world s)) of
                   Inl x \<Rightarrow> Failed
                 | Inr r \<Rightarrow> if returncode r = 0 then Positive else Negative,
                 case fst (run e (screen_ls_argv cfg) (world s)) of
                   Inl x \<Rightarrow> Failed
                 | Inr r \<Rightarrow> if str_in (MC_SERVER_SCREEN cfg) (stdout r) then Positive else Negative,
                 case fst (process_iter e (world s)) of
                   Inl x \<Rightarrow> Failed
                 | Inr ps \<Rightarrow> if list_ex proc_matches ps then Positive else Negative]
              = Some Positive)"
proof -
  have w1: "world (snd (probe_service e cfg s)) = world s"
    by (simp add: probe_service_world run_pure)
  have w2: "world (snd (probe_screen e cfg (snd (probe_service e cfg s)))) = world s"
    by (simp add: probe_screen_world run_pure w1)
  have w3: "world (snd (probe_process e cfg (snd (probe_screen e cfg (snd (probe_service e cfg s))))))
              = world s"
    by (simp add: probe_process_world iter_pure w2)
  show "world (snd (is_server_running e cfg s)) = world s"
    by (simp add: is_server_running_unfold Let_def w1 w2 w3)
  show "fst (is_server_running e cfg s)
           = (find (\<lambda>x. x \<noteq> Negative)
                [case fst (run e is_active_argv (world s)) of
                   Inl x \<Rightarrow> Failed
                 | Inr r \<Rightarrow> if returncode r = 0 then Positive else Negative,
                 case fst (run e (screen_ls_argv cfg) (world s)) of
                   Inl x \<Rightarrow> Failed
                 | Inr r \<Rightarrow> if str_in (MC_SERVER_SCREEN cfg) (stdout r) then Positive else Negative,
                 case fst (process_iter e (world s)) of
                   Inl x \<Rightarrow> Failed
                 | Inr ps \<Rightarrow> if list_ex proc_matches ps then Positive else Negative]
              = Some Positive)"
    unfolding is_server_running_unfold Let_def fst_conv
    by (simp only: probe_service_world(1) probe_screen_world(1) probe_process_world(1) w1 w2)
qed

subsection \<open>Detection\<close>

text \<open>
  C7, as the code has it. The probes run in the fixed order service manager, screen
  session, process scan; the result is \<open>True\<close> exactly when the first probe that does
  not report a negative signal reports a positive one, so it is \<open>False\<close> when all three
  are negative and also as soon as a probe call raises (the later probes are then not
  run). The calls made are the first \<open>probes_run\<close> of the three. When the probe
  commands leave the world as it is, a second detection gives the same result.
\<close>

theorem detection_probe_order:
  "(let r1 = probe_service e cfg s;
        r2 = probe_screen e cfg (snd r1);
        r3 = probe_process e cfg (snd r2);
        sigs = [fst r1, fst r2, fst r3]
    in fst (is_server_running e cfg s) = (find (\<lambda>x. x \<noteq> Negative) sigs = Some Positive)
       \<and> new_calls s (snd (is_server_running e cfg s)) = take (probes_run sigs) (detect_calls cfg))
   \<and> ((\<forall>argv w. snd (run e argv w) = w) \<and> (\<forall>w. snd (process_iter e w) = w) \<longrightarrow>
        fst (is_server_running e cfg (snd (is_server_running e cfg s)))
          = fst (is_server_running e cfg s))"
proof (intro conjI impI)
  show "let r1 = probe_service e cfg s;
            r2 = probe_screen e cfg (snd r1);
            r3 = probe_process e cfg (snd r2);
            sigs = [fst r1, fst r2, fst r3]
        in fst (is_server_running e cfg s) = (find (\<lambda>x. x \<noteq> Negative) sigs = Some Positive)
           \<and> new_calls s (snd (is_server_running e cfg s)) = take (probes_run sigs) (detect_calls cfg)"
    unfolding Let_def
    using new_calls_append [OF is_server_running_trace [of e cfg s]]
    by (simp add: is_server_running_unfold Let_def)
next
  assume pure: "(\<forall>argv w. snd (run e argv w) = w) \<and> (\<forall>w. snd (process_iter e w) = w)"
  then have a: "\<forall>argv w. snd (run e argv w) = w" and b: "\<forall>w. snd (process_iter e w) = w"
    by blast+
  show "fst (is_server_running e cfg (snd (is_server_running e cfg s)))
          = fst (is_server_running e cfg s)"
    by (simp only: is_server_running_still(2) [OF a b] is_server_running_still(1) [OF a b])
qed

theorem detection_probe_order_witness:
  "(\<forall>argv w. snd (run still argv w) = w) \<and> (\<forall>w. snd (process_iter still w) = w)
   \<and> fst (is_server_running still default_config (init ''1234.mcserver (Detached)'')) = True
   \<and> fst (is_server_running still default_config
            (snd (is_server_running still default_config (init ''1234.mcserver (Detached)''))))
       = fst (is_server_running still default_config (init ''1234.mcserver (Detached)''))"
proof -
  have p: "(\<forall>argv w. snd (run still argv w) = w) \<and> (\<forall>w. snd (process_iter still w) = w)"
    by (simp add: still_def)
  have r: "fst (is_server_running still default_config (init ''1234.mcserver (Detached)'')) = True"
    by (simp add: is_server_running_def probe_service_def probe_screen_def do_run_def still_def
        init_def default_config_def)
  from detection_probe_order [of still default_config "init ''1234.mcserver (Detached)''"] p r
  show ?thesis by blast
qed

text \<open>
  The claim as the specification words it fails: the service-manager query times out
  while the screen session of the server is listed, and detection answers \<open>False\<close>
  without asking the session manager.
\<close>

theorem detection_stopped_with_positive_probe:
  "fst (is_server_running scripted default_config
          (init [Raises ''timed out'', Exit 0 ''1234.mcserver (Detached)'' []])) = False
   \<and> fst (probe_screen scripted default_config
            (snd (is_server_running scripted default_config
                    (init [Raises ''timed out'', Exit 0 ''1234.mcserver (Detached)'' []]))))
       = Positive"
  by (simp add: is_server_running_def probe_service_def probe_screen_def do_run_def scripted_def
      init_def default_config_def)

subsection \<open>Precondition violations\<close>

text \<open>
  C6. When detection reports the server stopped, \<^verbatim>\<open>stop\<close> answers 400 "Server is not
  running" in the state detection left, having issued no escalation action; when
  detection reports it running, \<^verbatim>\<open>start\<close> answers 400 "Server is already running" in the
  state detection left, having issued no start action.
\<close>

theorem precondition_violation_no_action:
  "(fst (is_server_running e cfg s) = False \<longrightarrow>
      minecraft_stop e cfg s
        = (jsonify_code [(''error'', JStr ''Server is not running'')] 400,
           snd (is_server_running e cfg s))
      \<and> actions cfg (new_calls s (snd (minecraft_stop e cfg s))) = [])
   \<and> (fst (is_server_running e cfg s) = True \<longrightarrow>
      minecraft_start e cfg s
        = (jsonify_code [(''error'', JStr ''Server is already running'')] 400,
           snd (is_server_running e cfg s))
      \<and> actions cfg (new_calls s (snd (minecraft_start e cfg s))) = [])"
proof (intro conjI impI)
  assume d: "fst (is_server_running e cfg s) = False"
  then show stop: "minecraft_stop e cfg s
        = (jsonify_code [(''error'', JStr ''Server is not running'')] 400,
           snd (is_server_running e cfg s))"
    by (cases "is_server_running e cfg s") (simp add: minecraft_stop_def)
  show "actions cfg (new_calls s (snd (minecraft_stop e cfg s))) = []"
    by (simp add: stop is_server_running_actions)
next
  assume d: "fst (is_server_running e cfg s) = True"
  then show start: "minecraft_start e cfg s
        = (jsonify_code [(''error'', JStr ''Server is already running'')] 400,
           snd (is_server_running e cfg s))"
    by (cases "is_server_running e cfg s") (simp add: minecraft_start_def)
  show "actions cfg (new_calls s (snd (minecraft_start e cfg s))) = []"
    by (simp add: start is_server_running_actions)
qed

theorem precondition_violation_no_action_witness:
  "fst (is_server_running scripted default_config (init [Exit 3 [] [], Exit 1 [] [], Procs []]))
     = False
   \<and> code (fst (minecraft_stop scripted default_config
                 (init [Exit 3 [] [], Exit 1 [] [], Procs []]))) = 400
   \<and> actions default_config
       (trace (snd (minecraft_stop scripted default_config
                      (init [Exit 3 [] [], Exit 1 [] [], Procs []])))) = []
   \<and> fst (is_server_running scripted default_config (init [Exit 0 [] []])) = True
   \<and> code (fst (minecraft_start scripted default_config (init [Exit 0 [] []]))) = 400
   \<and> actions default_config
       (trace (snd (minecraft_start scripted default_config (init [Exit 0 [] []])))) = []"
proof -
  have a: "fst (is_server_running scripted default_config
                  (init [Exit 3 [] [], Exit 1 [] [], Procs []])) = False"
    by (simp add: is_server_running_def probe_service_def probe_screen_def probe_process_def
        do_run_def do_process_iter_def scripted_def init_def default_config_def)
  have b: "fst (is_server_running scripted default_config (init [Exit 0 [] []])) = True"
    by (simp add: is_server_running_def probe_service_def do_run_def scripted_def init_def)
  have n: "new_calls (init w) s' = trace s'" for w :: "reply list" and s'
    by (simp add: new_calls_def init_def)
  note stop = precondition_violation_no_action
         [of scripted default_config "init [Exit 3 [] [], Exit 1 [] [], Procs []]",
          THEN conjunct1, rule_format, OF a]
  note start = precondition_violation_no_action
         [of scripted default_config "init [Exit 0 [] []]", THEN conjunct2, rule_format, OF b]
  have "code (fst (minecraft_stop scripted default_config
                 (init [Exit 3 [] [], Exit 1 [] [], Procs []]))) = 400"
    by (simp add: stop [THEN conjunct1] jsonify_code_def)
  moreover have "actions default_config
            (trace (snd (minecraft_stop scripted default_config
                      (init [Exit 3 [] [], Exit 1 [] [], Procs []])))) = []"
    using stop [THEN conjunct2] unfolding n .
  moreover have "code (fst (minecraft_start scripted default_config (init [Exit 0 [] []]))) = 400"
    by (simp add: start [THEN conjunct1] jsonify_code_def)
  moreover have "actions default_config
            (trace (snd (minecraft_start scripted default_config (init [Exit 0 [] []])))) = []"
    using start [THEN conjunct2] unfolding n .
  ultimately show ?thesis using a b by blast
qed


subsection \<open>The call log of stop\<close>

lemma do_run_traceD: "do_run e argv s = (r, s') \<Longrightarrow> trace s' = trace s @ [Run argv]"
  using do_run_trace [of e argv s] by simp

lemma do_exists_traceD: "do_exists e p s = (b, s') \<Longrightarrow> trace s' = trace s @ [Exists p]"
  using do_exists_trace [of e p s] by simp

lemma do_process_iter_traceD:
  "do_process_iter e s = (r, s') \<Longrightarrow> trace s' = trace s @ [ProcessIter]"
  using do_process_iter_trace [of e s] by simp

lemma do_process_new_traceD:
  "do_process_new e p s = (r, s') \<Longrightarrow> trace s' = trace s @ [ProcessNew p]"
  using do_process_new_trace [of e p s] by simp

lemma do_terminate_traceD:
  "do_terminate e p s = (r, s') \<Longrightarrow> trace s' = trace s @ [Terminate p]"
  using do_terminate_trace [of e p s] by simp

lemma do_wait_proc_traceD:
  "do_wait_proc e p s = (r, s') \<Longrightarrow> trace s' = trace s @ [WaitProc p]"
  using do_wait_proc_trace [of e p s] by simp

lemma is_server_running_traceD:
  "is_server_running e cfg s = (b, s') \<Longrightarrow> \<exists>xs. trace s' = trace s @ xs \<and> actions cfg xs = []"
  using is_server_running_trace [of e cfg s] actions_detect_calls by fastforce

lemma get_server_pid_trace:
  "trace (snd (get_server_pid e s)) = trace s @ [ProcessIter]"
  using do_process_iter_trace [of e s]
  by (auto simp: get_server_pid_def split: prod.splits sum.splits option.splits)

lemma stop_kill_response: "fst (stop_kill e cfg s) = stopped"
  by (simp add: stop_kill_def split: prod.splits sum.splits option.splits)

lemma stop_kill_calls:
  "\<exists>xs. trace (snd (stop_kill e cfg s)) = trace s @ xs
        \<and> subseq (actions cfg xs) [ForcedTerminate, ForcedKill]"
  using get_server_pid_trace [of e s]
  by (auto simp: stop_kill_def actions_Cons do_kill_trace split: prod.splits sum.splits option.splits
      dest!: do_process_new_traceD do_terminate_traceD do_wait_proc_traceD)

lemma stop_screen_calls:
  "\<exists>xs. trace (snd (stop_screen e cfg s)) = trace s @ xs
        \<and> subseq (actions cfg xs) [ConsoleStop, ForcedTerminate, ForcedKill]"
proof -
  obtain r s1 where r: "do_run e (screen_stop_argv cfg) s = (r, s1)" by fastforce
  then have t1: "trace s1 = trace s @ [Run (screen_stop_argv cfg)]" by (rule do_run_traceD)
  obtain b s2 where d: "is_server_running e cfg (do_sleep e 3 s1) = (b, s2)" by fastforce
  then obtain ys where t2: "trace s2 = trace s1 @ Sleep 3 # ys" and a2: "actions cfg ys = []"
    using is_server_running_traceD [OF d] by (auto simp: do_sleep_trace)
  have k: "\<exists>zs. trace (snd (stop_kill e cfg s')) = trace s' @ zs
        \<and> subseq (actions cfg zs) [ForcedTerminate, ForcedKill]" for s'
    by (rule stop_kill_calls)
  show ?thesis
  proof (cases r)
    case (Inl x)
    with r k [of s1] t1 show ?thesis
      by (auto simp: stop_screen_def actions_Cons)
  next
    case (Inr c)
    show ?thesis
    proof (cases b)
      case False
      with r d Inr t1 t2 a2 show ?thesis
        by (auto simp: stop_screen_def actions_Cons)
    next
      case True
      with r d Inr t1 t2 a2 k [of s2] show ?thesis
        by (auto simp: stop_screen_def actions_Cons)
    qed
  qed
qed


lemma stop_rcon_calls:
  "\<exists>xs. trace (snd (stop_rcon e cfg s)) = trace s @ xs
        \<and> subseq (actions cfg xs) [ProtocolStop, ConsoleStop, ForcedTerminate, ForcedKill]"
proof -
  obtain b s1 where x1: "do_exists e ''/usr/bin/mcrcon'' s = (b, s1)" by fastforce
  define cmd where "cmd = (if b then ''/usr/bin/mcrcon'' else ''/usr/local/bin/mcrcon'')"
  obtain b2 s2 where x2: "do_exists e cmd s1 = (b2, s2)" by fastforce
  obtain r s3 where r: "do_run e (rcon_stop_argv cfg cmd) s2 = (r, s3)" by fastforce
  obtain d s4 where d: "is_server_running e cfg (do_sleep e 3 s3) = (d, s4)" by fastforce
  have t1: "trace s1 = trace s @ [Exists ''/usr/bin/mcrcon'']"
    using x1 by (rule do_exists_traceD)
  have t2: "trace s2 = trace s1 @ [Exists cmd]" using x2 by (rule do_exists_traceD)
  have t3: "trace s3 = trace s2 @ [Run (rcon_stop_argv cfg cmd)]" using r by (rule do_run_traceD)
  obtain ys where t4: "trace s4 = trace s3 @ Sleep 3 # ys" and a4: "actions cfg ys = []"
    using is_server_running_traceD [OF d] by (auto simp: do_sleep_trace)
  have st: "step_of cfg (Run (rcon_stop_argv cfg cmd)) = Some ProtocolStop"
    by (simp add: cmd_def)
  have k: "\<exists>zs. trace (snd (stop_screen e cfg s')) = trace s' @ zs
        \<and> subseq (actions cfg zs) [ConsoleStop, ForcedTerminate, ForcedKill]" for s'
    by (rule stop_screen_calls)
  have unfold: "stop_rcon e cfg s =
      (if \<not> b2 then stop_screen e cfg s2
       else case r of Inl x \<Rightarrow> stop_screen e cfg s3
            | Inr c \<Rightarrow> if d then stop_screen e cfg s4 else (stopped, s4))"
    using x1 x2 r d by (auto simp: stop_rcon_def Let_def cmd_def split: sum.splits)
  show ?thesis
  proof (cases "\<not> b2")
    case True
    with unfold k [of s2] t1 t2 show ?thesis by (auto simp: actions_Cons)
  next
    case b2: False
    show ?thesis
    proof (cases r)
      case (Inl x)
      with b2 unfold k [of s3] t1 t2 t3 st show ?thesis by (auto simp: actions_Cons)
    next
      case (Inr c)
      show ?thesis
      proof (cases d)
        case True
        with b2 Inr unfold k [of s4] t1 t2 t3 t4 a4 st show ?thesis by (auto simp: actions_Cons)
      next
        case False
        with b2 Inr unfold t1 t2 t3 t4 a4 st show ?thesis by (auto simp: actions_Cons)
      qed
    qed
  qed
qed

lemma minecraft_stop_calls:
  "\<exists>xs. trace (snd (minecraft_stop e cfg s)) = trace s @ xs
        \<and> subseq (actions cfg xs)
            [ServiceStop, ProtocolStop, ConsoleStop, ForcedTerminate, ForcedKill]"
proof -
  obtain d s0 where d: "is_server_running e cfg s = (d, s0)" by fastforce
  obtain r s1 where r: "do_run e stop_argv s0 = (r, s1)" by fastforce
  obtain ys where t0: "trace s0 = trace s @ ys" and a0: "actions cfg ys = []"
    using is_server_running_traceD [OF d] by auto
  have t1: "trace s1 = trace s0 @ [Run stop_argv]" using r by (rule do_run_traceD)
  have k: "\<exists>zs. trace (snd (stop_rcon e cfg s1)) = trace s1 @ zs
        \<and> subseq (actions cfg zs) [ProtocolStop, ConsoleStop, ForcedTerminate, ForcedKill]"
    by (rule stop_rcon_calls)
  have unfold: "minecraft_stop e cfg s =
      (if \<not> d then (jsonify_code [(''error'', JStr ''Server is not running'')] 400, s0)
       else case r of Inl x \<Rightarrow> (jsonify_code [(''error'', JStr (str_exn x))] 500, s1)
            | Inr c \<Rightarrow> if returncode c = 0 then (stopped, s1) else stop_rcon e cfg s1)"
    using d r by (auto simp: minecraft_stop_def split: sum.splits)
  show ?thesis
  proof (cases "\<not> d")
    case True
    with unfold t0 a0 show ?thesis by auto
  next
    case dd: False
    show ?thesis
    proof (cases r)
      case (Inl x)
      with dd unfold t0 a0 t1 show ?thesis by (auto simp: actions_Cons)
    next
      case (Inr c)
      show ?thesis
      proof (cases "returncode c = 0")
        case True
        with dd Inr unfold t0 a0 t1 show ?thesis by (auto simp: actions_Cons)
      next
        case False
        with dd Inr unfold t0 a0 t1 k show ?thesis by (auto simp: actions_Cons)
      qed
    qed
  qed
qed

lemma minecraft_stop_order:
  "subseq (actions cfg (new_calls s (snd (minecraft_stop e cfg s))))
     [ServiceStop, ProtocolStop, ConsoleStop, ForcedTerminate, ForcedKill]"
  using minecraft_stop_calls [of e cfg s] by (auto simp: new_calls_def)


subsection \<open>Stop\<close>

lemma stop_screen_response: "fst (stop_screen e cfg s) = stopped"
  by (simp add: stop_screen_def stop_kill_response split: prod.splits sum.splits bool.splits)

lemma stop_rcon_response: "fst (stop_rcon e cfg s) = stopped"
  by (simp add: stop_rcon_def Let_def stop_screen_response split: prod.splits sum.splits bool.splits)

lemma stop_kill_no_detection:
  "Run is_active_argv \<notin> set (new_calls s (snd (stop_kill e cfg s)))"
  using get_server_pid_trace [of e s]
  by (auto simp: stop_kill_def new_calls_def do_kill_trace
      split: prod.splits sum.splits option.splits
      dest!: do_process_new_traceD do_terminate_traceD do_wait_proc_traceD)

lemma minecraft_stop_service_ok:
  assumes "fst (is_server_running e cfg s)"
      and "\<not> isl (fst (do_run e stop_argv (snd (is_server_running e cfg s))))"
      and "returncode (projr (fst (do_run e stop_argv (snd (is_server_running e cfg s))))) = 0"
  shows "minecraft_stop e cfg s = (stopped, snd (do_run e stop_argv (snd (is_server_running e cfg s))))"
  using assms by (auto simp: minecraft_stop_def split: prod.splits sum.splits)

lemma minecraft_stop_service_failed:
  assumes "fst (is_server_running e cfg s)"
      and "\<not> isl (fst (do_run e stop_argv (snd (is_server_running e cfg s))))"
      and "returncode (projr (fst (do_run e stop_argv (snd (is_server_running e cfg s))))) \<noteq> 0"
  shows "minecraft_stop e cfg s
           = stop_rcon e cfg (snd (do_run e stop_argv (snd (is_server_running e cfg s))))"
  using assms by (auto simp: minecraft_stop_def split: prod.splits sum.splits)

lemma stop_rcon_ran:
  assumes "fst (do_exists e ''/usr/bin/mcrcon'' s)"
      and "fst (do_exists e ''/usr/bin/mcrcon'' (snd (do_exists e ''/usr/bin/mcrcon'' s)))"
      and "\<not> isl (fst (do_run e (rcon_stop_argv cfg ''/usr/bin/mcrcon'')
                      (snd (do_exists e ''/usr/bin/mcrcon'' (snd (do_exists e ''/usr/bin/mcrcon'' s))))))"
  shows "stop_rcon e cfg s =
           (let d = is_server_running e cfg
                      (do_sleep e 3
                         (snd (do_run e (rcon_stop_argv cfg ''/usr/bin/mcrcon'')
                                 (snd (do_exists e ''/usr/bin/mcrcon''
                                         (snd (do_exists e ''/usr/bin/mcrcon'' s)))))))
            in if fst d then stop_screen e cfg (snd d) else (stopped, snd d))"
  using assms by (auto simp: stop_rcon_def Let_def split: prod.splits sum.splits)

lemma stop_screen_ran:
  assumes "\<not> isl (fst (do_run e (screen_stop_argv cfg) s))"
  shows "stop_screen e cfg s =
           (let d = is_server_running e cfg (do_sleep e 3 (snd (do_run e (screen_stop_argv cfg) s)))
            in if fst d then stop_kill e cfg (snd d) else (stopped, snd d))"
  using assms by (auto simp: stop_screen_def Let_def split: prod.splits sum.splits)

lemma new_calls_trans:
  "trace s1 = trace s @ xs \<Longrightarrow> trace s2 = trace s1 @ ys \<Longrightarrow> new_calls s s2 = new_calls s s1 @ new_calls s1 s2"
  by (simp add: new_calls_def)

lemma is_server_running_extends: "\<exists>xs. trace (snd (is_server_running e cfg s)) = trace s @ xs"
  using is_server_running_trace by blast

lemma new_calls_detect_step:
  "new_calls s (snd (is_server_running e cfg s'))
     = (if length (trace s) \<le> length (trace s')
        then new_calls s s' @ new_calls s' (snd (is_server_running e cfg s'))
        else new_calls s (snd (is_server_running e cfg s')))"
  using is_server_running_extends [of e cfg s'] by (auto simp: new_calls_def)

lemma stop_screen_escalate:
  "stop_screen e cfg s =
     (case escalate e cfg [screen_command e cfg] s of
        (True, s2) \<Rightarrow> (stopped, s2)
      | (False, s2) \<Rightarrow> stop_kill e cfg s2)"
  by (auto simp: stop_screen_def screen_command_def split: prod.splits sum.splits bool.splits)

lemma escalate_two:
  "escalate e cfg [c1, c2] s =
     (case c1 s of
        (False, s1) \<Rightarrow> escalate e cfg [c2] s1
      | (True, s1) \<Rightarrow>
          (case is_server_running e cfg (do_sleep e 3 s1) of
             (False, s2) \<Rightarrow> (True, s2)
           | (True, s2) \<Rightarrow> escalate e cfg [c2] s2))"
  by simp

lemma stop_rcon_escalate:
  "stop_rcon e cfg s =
     (case escalate e cfg [rcon_command e cfg, screen_command e cfg] s of
        (True, s2) \<Rightarrow> (stopped, s2)
      | (False, s2) \<Rightarrow> stop_kill e cfg s2)"
  unfolding escalate_two stop_rcon_def rcon_command_def Let_def stop_screen_escalate
  by (simp split: prod.splits sum.splits bool.splits)

lemma minecraft_stop_escalation: "minecraft_stop e cfg s = escalation e cfg s"
  unfolding minecraft_stop_def escalation_def stop_rcon_escalate ..

lemma stop_rcon_unfold:
  "stop_rcon e cfg s =
     (let x1 = do_exists e ''/usr/bin/mcrcon'' s;
          cmd = (if fst x1 then ''/usr/bin/mcrcon'' else ''/usr/local/bin/mcrcon'');
          x2 = do_exists e cmd (snd x1);
          a2 = do_run e (rcon_stop_argv cfg cmd) (snd x2);
          d2 = is_server_running e cfg (do_sleep e 3 (snd a2))
      in if fst x2 \<and> \<not> isl (fst a2) \<and> \<not> fst d2 then (stopped, snd d2)
         else stop_screen e cfg
                (if \<not> fst x2 then snd x2 else if isl (fst a2) then snd a2 else snd d2))"
  by (auto simp: stop_rcon_def Let_def split: prod.splits sum.splits)

lemma step_of_rcon:
  "step_of cfg (Run (rcon_stop_argv cfg (if b then ''/usr/bin/mcrcon'' else ''/usr/local/bin/mcrcon'')))
     = Some ProtocolStop"
  by simp


subsection \<open>Evaluation in the scripted world\<close>

lemma scripted_run:
  "do_run scripted argv \<lparr>world = Exit rc out err # rs, trace = t\<rparr>
     = (Inr \<lparr>returncode = rc, stdout = out, stderr = err\<rparr>, \<lparr>world = rs, trace = t @ [Run argv]\<rparr>)"
  "do_run scripted argv \<lparr>world = Raises m # rs, trace = t\<rparr>
     = (Inl (PyExn m), \<lparr>world = rs, trace = t @ [Run argv]\<rparr>)"
  by (simp_all add: do_run_def scripted_def)

lemma scripted_exists:
  "do_exists scripted p \<lparr>world = Path b # rs, trace = t\<rparr>
     = (b, \<lparr>world = rs, trace = t @ [Exists p]\<rparr>)"
  by (simp add: do_exists_def scripted_def)

lemma scripted_sleep:
  "do_sleep scripted n \<lparr>world = w, trace = t\<rparr> = \<lparr>world = w, trace = t @ [Sleep n]\<rparr>"
  by (simp add: do_sleep_def scripted_def)

lemma scripted_process_iter:
  "do_process_iter scripted \<lparr>world = Procs ps # rs, trace = t\<rparr>
     = (Inr ps, \<lparr>world = rs, trace = t @ [ProcessIter]\<rparr>)"
  "do_process_iter scripted \<lparr>world = Raises m # rs, trace = t\<rparr>
     = (Inl (PyExn m), \<lparr>world = rs, trace = t @ [ProcessIter]\<rparr>)"
  by (simp_all add: do_process_iter_def scripted_def)

lemma scripted_process_new:
  "do_process_new scripted p \<lparr>world = Ok # rs, trace = t\<rparr>
     = (Inr (), \<lparr>world = rs, trace = t @ [ProcessNew p]\<rparr>)"
  "do_process_new scripted p \<lparr>world = Raises m # rs, trace = t\<rparr>
     = (Inl (PyExn m), \<lparr>world = rs, trace = t @ [ProcessNew p]\<rparr>)"
  by (simp_all add: do_process_new_def scripted_def)

lemma scripted_terminate:
  "do_terminate scripted p \<lparr>world = Ok # rs, trace = t\<rparr>
     = (Inr (), \<lparr>world = rs, trace = t @ [Terminate p]\<rparr>)"
  "do_terminate scripted p \<lparr>world = Raises m # rs, trace = t\<rparr>
     = (Inl (PyExn m), \<lparr>world = rs, trace = t @ [Terminate p]\<rparr>)"
  by (simp_all add: do_terminate_def scripted_def)

lemma scripted_wait_proc:
  "do_wait_proc scripted p \<lparr>world = Ok # rs, trace = t\<rparr>
     = (Inr (), \<lparr>world = rs, trace = t @ [WaitProc p]\<rparr>)"
  "do_wait_proc scripted p \<lparr>world = Raises m # rs, trace = t\<rparr>
     = (Inl (PyExn m), \<lparr>world = rs, trace = t @ [WaitProc p]\<rparr>)"
  by (simp_all add: do_wait_proc_def scripted_def)

lemma scripted_kill:
  "do_kill scripted p \<lparr>world = Ok # rs, trace = t\<rparr>
     = (Inr (), \<lparr>world = rs, trace = t @ [Kill p]\<rparr>)"
  "do_kill scripted p \<lparr>world = Raises m # rs, trace = t\<rparr>
     = (Inl (PyExn m), \<lparr>world = rs, trace = t @ [Kill p]\<rparr>)"
  by (simp_all add: do_kill_def scripted_def)

lemma scripted_read_lines:
  "do_read_lines scripted p \<lparr>world = Lines ls # rs, trace = t\<rparr>
     = (Inr ls, \<lparr>world = rs, trace = t @ [ReadLines p]\<rparr>)"
  by (simp add: do_read_lines_def scripted_def)

lemma scripted_detect_service:
  "is_server_running scripted cfg \<lparr>world = Exit 0 out err # rs, trace = t\<rparr>
     = (True, \<lparr>world = rs, trace = t @ [Run is_active_argv]\<rparr>)"
  by (simp add: is_server_running_def probe_service_def scripted_run)

lemma scripted_detect_failed:
  "is_server_running scripted cfg \<lparr>world = Raises m # rs, trace = t\<rparr>
     = (False, \<lparr>world = rs, trace = t @ [Run is_active_argv]\<rparr>)"
  by (simp add: is_server_running_def probe_service_def scripted_run)

lemma scripted_detect_none:
  "rc \<noteq> 0 \<Longrightarrow> \<not> str_in (MC_SERVER_SCREEN cfg) out \<Longrightarrow> \<not> list_ex proc_matches ps \<Longrightarrow>
   is_server_running scripted cfg
     \<lparr>world = Exit rc out1 err1 # Exit rc2 out err2 # Procs ps # rs, trace = t\<rparr>
     = (False, \<lparr>world = rs, trace = t @ detect_calls cfg\<rparr>)"
  by (simp add: is_server_running_def probe_service_def probe_screen_def probe_process_def
      scripted_run scripted_process_iter detect_calls_def)

lemmas scripted_eval =
  scripted_run scripted_exists scripted_sleep scripted_process_iter scripted_process_new
  scripted_terminate scripted_wait_proc scripted_kill scripted_read_lines
  scripted_detect_service scripted_detect_failed scripted_detect_none

lemmas stop_eval =
  minecraft_stop_def stop_rcon_def stop_screen_def stop_kill_def get_server_pid_def
  init_def Let_def actions_Cons detect_calls_def

lemma screen_default [simp]: "MC_SERVER_SCREEN default_config = ''mcserver''"
  by (simp add: default_config_def)

lemma new_calls_init: "new_calls (init w) s' = trace s'"
  by (simp add: new_calls_def init_def)

subsection \<open>Stop: concrete runs and responses\<close>



text \<open>
  C2, as the code has it. The block of forced termination always answers "stopped" and
  runs no detection after its action. \<^verbatim>\<open>stop\<close> has two failure responses only: 400
  "Server is not running" when the first detection reports the server stopped, and 500
  with the text of the exception when the service-manager stop command raises; every
  other run answers "stopped" with status 200.
\<close>

theorem stop_responses:
  "fst (stop_kill e cfg s) = stopped
   \<and> Run is_active_argv \<notin> set (new_calls s (snd (stop_kill e cfg s)))
   \<and> fst (minecraft_stop e cfg s)
       = (if fst (is_server_running e cfg s)
          then case fst (do_run e stop_argv (snd (is_server_running e cfg s))) of
                 Inl x \<Rightarrow> jsonify_code [(''error'', JStr (str_exn x))] 500
               | Inr r \<Rightarrow> stopped
          else jsonify_code [(''error'', JStr ''Server is not running'')] 400)"
proof (intro conjI)
  show "fst (stop_kill e cfg s) = stopped" by (rule stop_kill_response)
  show "Run is_active_argv \<notin> set (new_calls s (snd (stop_kill e cfg s)))"
    by (rule stop_kill_no_detection)
  show "fst (minecraft_stop e cfg s)
       = (if fst (is_server_running e cfg s)
          then case fst (do_run e stop_argv (snd (is_server_running e cfg s))) of
                 Inl x \<Rightarrow> jsonify_code [(''error'', JStr (str_exn x))] 500
               | Inr r \<Rightarrow> stopped
          else jsonify_code [(''error'', JStr ''Server is not running'')] 400)"
    by (auto simp: minecraft_stop_def stop_rcon_response split: prod.splits sum.splits)
qed

text \<open>
  The claim as the specification words it fails: every step is tried, the process
  survives termination and the kill is refused, a detection afterwards reports the
  server running, and \<^verbatim>\<open>stop\<close> has answered "stopped" with status 200.
\<close>

theorem stop_reports_stopped_after_failed_kill:
  "fst (minecraft_stop scripted default_config (init script_unkillable)) = Response (JObj [(''status'', JStr ''stopped'')]) 200
   \<and> actions default_config
       (trace (snd (minecraft_stop scripted default_config (init script_unkillable))))
       = [ServiceStop, ProtocolStop, ConsoleStop, ForcedTerminate, ForcedKill]
   \<and> fst (is_server_running scripted default_config
            (snd (minecraft_stop scripted default_config (init script_unkillable))))"
  by (simp add: stop_eval scripted_eval script_unkillable_def java_proc_def lower_def
      lower_char_def stopped_def jsonify_def)

subsection \<open>Restart\<close>

lemma subseq_set_mono: "subseq xs ys \<Longrightarrow> set xs \<subseteq> set ys"
  by (induction rule: list_emb.induct) auto

lemma is_server_running_calls:
  "\<exists>xs. trace (snd (is_server_running e cfg s)) = trace s @ xs \<and> actions cfg xs = []"
  using is_server_running_trace [of e cfg s] actions_detect_calls by blast

lemma restart_stop_phase_calls:
  "\<exists>xs. trace (restart_stop_phase e cfg s) = trace s @ xs
        \<and> subseq (actions cfg xs)
            [ServiceStop, ProtocolStop, ConsoleStop, ForcedTerminate, ForcedKill]"
proof -
  obtain d s0 where d: "is_server_running e cfg s = (d, s0)" by fastforce
  obtain ys where t0: "trace s0 = trace s @ ys" and a0: "actions cfg ys = []"
    using is_server_running_traceD [OF d] by auto
  obtain zs where t1: "trace (snd (minecraft_stop e cfg s0)) = trace s0 @ zs"
      and a1: "subseq (actions cfg zs)
                 [ServiceStop, ProtocolStop, ConsoleStop, ForcedTerminate, ForcedKill]"
    using minecraft_stop_calls [of e cfg s0] by auto
  show ?thesis
    using d t0 a0 t1 a1
    by (cases d) (auto simp: restart_stop_phase_def do_sleep_trace actions_Cons)
qed

text \<open>
  C3, as the code has it. \<^verbatim>\<open>restart\<close> drops the responses of both phases and always
  answers "restarting" with status 200. When the detection that opens the start phase
  still reports the server running, no start action is issued.
\<close>

theorem restart_response:
  "minecraft_restart e cfg s
     = (jsonify [(''status'', JStr ''restarting'')],
        snd (minecraft_start e cfg (restart_stop_phase e cfg s)))
   \<and> (fst (is_server_running e cfg (restart_stop_phase e cfg s)) \<longrightarrow>
        ServiceStart \<notin> set (actions cfg (new_calls s (snd (minecraft_restart e cfg s))))
        \<and> ScreenStart \<notin> set (actions cfg (new_calls s (snd (minecraft_restart e cfg s)))))"
proof (intro conjI impI)
  show "minecraft_restart e cfg s
     = (jsonify [(''status'', JStr ''restarting'')],
        snd (minecraft_start e cfg (restart_stop_phase e cfg s)))"
    by (simp add: minecraft_restart_def)
next
  assume running: "fst (is_server_running e cfg (restart_stop_phase e cfg s))"
  let ?s1 = "restart_stop_phase e cfg s"
  obtain xs where t1: "trace ?s1 = trace s @ xs"
      and a1: "subseq (actions cfg xs)
                 [ServiceStop, ProtocolStop, ConsoleStop, ForcedTerminate, ForcedKill]"
    using restart_stop_phase_calls [of e cfg s] by blast
  have st: "minecraft_start e cfg ?s1
        = (jsonify_code [(''error'', JStr ''Server is already running'')] 400,
           snd (is_server_running e cfg ?s1))"
    using running by (cases "is_server_running e cfg ?s1") (simp_all add: minecraft_start_def)
  obtain ys where t2: "trace (snd (is_server_running e cfg ?s1)) = trace ?s1 @ ys"
      and a2: "actions cfg ys = []"
    using is_server_running_calls [of e cfg ?s1] by blast
  have e1: "snd (minecraft_restart e cfg s) = snd (is_server_running e cfg ?s1)"
    unfolding minecraft_restart_def st by simp
  have e2: "trace (snd (minecraft_restart e cfg s)) = trace s @ (xs @ ys)"
    unfolding e1 t2 t1 by simp
  have "new_calls s (snd (minecraft_restart e cfg s)) = xs @ ys"
    using e2 by (rule new_calls_append)
  then have nc: "actions cfg (new_calls s (snd (minecraft_restart e cfg s))) = actions cfg xs"
    by (simp add: a2)
  have "set (actions cfg xs) \<subseteq> set [ServiceStop, ProtocolStop, ConsoleStop, ForcedTerminate, ForcedKill]"
    using a1 by (rule subseq_set_mono)
  then show "ServiceStart \<notin> set (actions cfg (new_calls s (snd (minecraft_restart e cfg s))))"
    and "ScreenStart \<notin> set (actions cfg (new_calls s (snd (minecraft_restart e cfg s))))"
    unfolding nc by auto
qed

theorem restart_response_witness:
  "fst (is_server_running scripted default_config
          (restart_stop_phase scripted default_config (init script_restart)))
   \<and> actions default_config
       (trace (snd (minecraft_restart scripted default_config (init script_restart))))
       = [ServiceStop]"
  using restart_response [of scripted default_config "init script_restart"]
  by (simp add: minecraft_restart_def minecraft_start_def restart_stop_phase_def stop_eval
      scripted_eval script_restart_def)

text \<open>
  The claim as the specification words it fails: the stop phase fails with status 500
  (the service-manager command times out), and \<^verbatim>\<open>restart\<close> answers "restarting" with
  status 200.
\<close>

theorem restart_hides_stop_failure:
  "fst (minecraft_stop scripted default_config
          (snd (is_server_running scripted default_config (init script_restart))))
     = Response (JObj [(''error'', JStr ''timed out'')]) 500
   \<and> fst (minecraft_restart scripted default_config (init script_restart))
       = Response (JObj [(''status'', JStr ''restarting'')]) 200"
  by (simp add: minecraft_restart_def stop_eval scripted_eval script_restart_def
      jsonify_def jsonify_code_def)


subsection \<open>Printer control\<close>

text \<open>
  C9. While the MQTT channel is not connected, each of the three control endpoints
  answers the LAN-only error with status 400 and leaves the module state as it was: no
  command is published and the cache is unchanged. For an action other than pause,
  resume and stop, \<^verbatim>\<open>control_printer\<close> answers \<^verbatim>\<open>False\<close> and leaves the state as it was.
\<close>

theorem control_requires_mqtt:
  "(\<not> mqtt_connected st \<longrightarrow>
      pause cfg e st = (lan_only_error, st)
      \<and> resume cfg e st = (lan_only_error, st)
      \<and> printer_stop cfg e st = (lan_only_error, st)
      \<and> code lan_only_error = 400)
   \<and> (action \<notin> {''pause'', ''resume'', ''stop''} \<longrightarrow>
        control_printer cfg e action st = (False, st))"
  by (simp add: pause_def resume_def printer_stop_def control_endpoint_def lan_only_error_def
      jsonify_code_def control_printer_def command_map_def)

theorem control_requires_mqtt_witness:
  "\<not> mqtt_connected (pinit 0 printing_cache)
   \<and> ''cancel'' \<notin> {''pause'', ''resume'', ''stop''}
   \<and> code (fst (pause cloud_config offline (pinit 0 printing_cache))) = 400
   \<and> snd (printer_stop cloud_config offline (pinit 0 printing_cache)) = pinit 0 printing_cache
   \<and> control_printer cloud_config offline ''cancel'' (pinit 0 printing_cache)
       = (False, pinit 0 printing_cache)"
proof -
  have a: "\<not> mqtt_connected (pinit 0 printing_cache)" by (simp add: pinit_def)
  have b: "''cancel'' \<notin> {''pause'', ''resume'', ''stop''}" by simp
  note t = control_requires_mqtt [of "pinit 0 printing_cache" cloud_config offline "''cancel''"]
  from t a have "pause cloud_config offline (pinit 0 printing_cache) = (lan_only_error, pinit 0 printing_cache)"
    and "printer_stop cloud_config offline (pinit 0 printing_cache) = (lan_only_error, pinit 0 printing_cache)"
    and "code lan_only_error = 400" by blast+
  moreover from t b have "control_printer cloud_config offline ''cancel'' (pinit 0 printing_cache)
       = (False, pinit 0 printing_cache)" by blast
  ultimately show ?thesis using a b by simp
qed

subsection \<open>Merging partial updates\<close>

lemma get_set_field: "get_field f' (set_field f v c) = (if f' = f then v else get_field f' c)"
  by (cases f; cases f'; simp)

lemma set_field_frame:
  "c_alert (set_field f v c) = c_alert c"
  "c_last_update (set_field f v c) = c_last_update c"
  "c_connected (set_field f v c) = c_connected c"
  "c_mode (set_field f v c) = c_mode c"
  by (cases f; simp)+

lemma overlay_dict:
  "overlay fs (JObj kvs) c
     = (Inr (), fold (\<lambda>f c. case map_of kvs (key_of f) of None \<Rightarrow> c | Some v \<Rightarrow> set_field f v c) fs c)"
  by (induction fs arbitrary: c) (auto split: option.splits)

lemma fold_set_field_get:
  "get_field f' (fold (\<lambda>f c. case map_of kvs (key_of f) of None \<Rightarrow> c | Some v \<Rightarrow> set_field f v c) fs c)
     = (if f' \<in> set fs
        then (case map_of kvs (key_of f') of None \<Rightarrow> get_field f' c | Some v \<Rightarrow> v)
        else get_field f' c)"
  by (induction fs arbitrary: c) (auto simp: get_set_field split: option.splits)

lemma fold_set_field_frame:
  "c_alert (fold (\<lambda>f c. case map_of kvs (key_of f) of None \<Rightarrow> c | Some v \<Rightarrow> set_field f v c) fs c)
     = c_alert c"
  by (induction fs arbitrary: c) (auto simp: set_field_frame split: option.splits)

lemma manual_fields_all: "f \<in> set manual_fields"
  by (cases f) (simp_all add: manual_fields_def)

lemma overlay_manual_get:
  "get_field f (snd (overlay manual_fields (JObj kvs) c))
     = (case map_of kvs (key_of f) of None \<Rightarrow> get_field f c | Some v \<Rightarrow> v)"
  by (simp add: overlay_dict fold_set_field_get manual_fields_all)

lemma overlay_manual_alert:
  "c_alert (snd (overlay manual_fields (JObj kvs) c)) = c_alert c"
  by (simp add: overlay_dict fold_set_field_frame)

lemma do_now_cache: "cache (snd (do_now e st)) = cache st"
  by (simp add: do_now_def split: prod.splits)

lemma update_status_dict:
  "cache (snd (update_status e (Inr (JObj kvs)) st))
     = (snd (overlay manual_fields (JObj kvs) (cache st)))
         \<lparr>c_last_update := Some (fst (now e (pworld st))), c_connected := True, c_mode := ''manual''\<rparr>"
  "fst (update_status e (Inr (JObj kvs)) st) = jsonify [(''status'', JStr ''updated'')]"
  by (simp_all add: update_status_def overlay_dict do_now_def split: prod.splits)

lemma update_status_get:
  "get_field f (cache (snd (update_status e (Inr (JObj kvs)) st)))
     = (case map_of kvs (key_of f) of None \<Rightarrow> get_field f (cache st) | Some v \<Rightarrow> v)"
proof -
  have "get_field f (c\<lparr>c_last_update := t, c_connected := b, c_mode := m\<rparr>) = get_field f c"
    for c t b m by (cases f) simp_all
  then show ?thesis by (simp add: update_status_dict(1) overlay_manual_get)
qed

lemma manual_merges_untouched:
  "\<forall>d \<in> set ds. map_of d (key_of f) = None \<Longrightarrow>
   get_field f (cache (manual_merges e ds st)) = get_field f (cache st)"
  by (induction ds arbitrary: st) (simp_all add: update_status_get)

lemma manual_merges_append:
  "manual_merges e (xs @ ys) st = manual_merges e ys (manual_merges e xs st)"
  by (induction xs arbitrary: st) simp_all

lemma manual_merges_last_write:
  assumes "map_of d (key_of f) = Some v" and "\<forall>d' \<in> set post. map_of d' (key_of f) = None"
  shows "get_field f (cache (manual_merges e (pre @ d # post) st)) = v"
  using assms
  by (simp add: manual_merges_append manual_merges_untouched update_status_get)


lemma section_update_absent:
  "map_of kvs key = None \<Longrightarrow> section_update key upd (JObj kvs) c = (Inr (), c)"
  by (simp add: section_update_def)

lemma section_update_present:
  "map_of kvs key = Some d \<Longrightarrow> section_update key upd (JObj kvs) c = upd d c"
  by (simp add: section_update_def)

lemma update_print_frame:
  "c_nozzleTemp (snd (update_print d c)) = c_nozzleTemp c"
  "c_bedTemp (snd (update_print d c)) = c_bedTemp c"
  "c_filament (snd (update_print d c)) = c_filament c"
  "c_alert (snd (update_print d c)) = c_alert c"
  by (simp_all add: update_print_def Let_def split: sum.splits bool.splits)

lemma update_temperature_frame:
  "c_status (snd (update_temperature d c)) = c_status c"
  "c_jobName (snd (update_temperature d c)) = c_jobName c"
  "c_progress (snd (update_temperature d c)) = c_progress c"
  "c_eta (snd (update_temperature d c)) = c_eta c"
  "c_filament (snd (update_temperature d c)) = c_filament c"
  "c_alert (snd (update_temperature d c)) = c_alert c"
  by (simp_all add: update_temperature_def split: sum.splits)

lemma update_ams_frame:
  "c_status (snd (update_ams d c)) = c_status c"
  "c_jobName (snd (update_ams d c)) = c_jobName c"
  "c_progress (snd (update_ams d c)) = c_progress c"
  "c_eta (snd (update_ams d c)) = c_eta c"
  "c_nozzleTemp (snd (update_ams d c)) = c_nozzleTemp c"
  "c_bedTemp (snd (update_ams d c)) = c_bedTemp c"
  "c_alert (snd (update_ams d c)) = c_alert c"
  by (simp_all add: update_ams_def split: sum.splits)

lemma section_update_frame:
  assumes "\<And>d c. sel (snd (upd d c)) = sel c"
  shows "sel (snd (section_update key upd data c)) = sel c"
  using assms by (simp add: section_update_def split: sum.splits bool.splits)

lemma update_print_dict:
  "c_status (snd (update_print (JObj pd) c)) = get_or pd ''mc_print_stage'' (JStr ''IDLE'')"
  "c_progress (snd (update_print (JObj pd) c)) = get_or pd ''mc_percent'' (JInt 0)"
  "c_jobName (snd (update_print (JObj pd) c)) = get_or pd ''subtask_name'' JNull"
  by (simp_all add: update_print_def Let_def get_or_def split: sum.splits bool.splits)

lemma update_temperature_dict:
  "c_nozzleTemp (snd (update_temperature (JObj td) c)) = get_or td ''nozzle_temper'' (JInt 0)"
  "c_bedTemp (snd (update_temperature (JObj td) c)) = get_or td ''bed_temper'' (JInt 0)"
  by (simp_all add: update_temperature_def get_or_def)

lemma update_ams_dict:
  "c_filament (snd (update_ams (JObj ad) c)) = get_or ad ''tray_now'' (JStr ''--'')"
  by (simp add: update_ams_def get_or_def)

text \<open>The cache after the three blocks, block by block.\<close>

lemma mqtt_sections_snd:
  "snd (mqtt_sections data c) =
     (let r1 = section_update ''print'' update_print data c
      in if isl (fst r1) then snd r1
         else let r2 = section_update ''temperature'' update_temperature data (snd r1)
              in if isl (fst r2) then snd r2
                 else snd (section_update ''ams'' update_ams data (snd r2)))"
  by (simp add: mqtt_sections_def Let_def split: prod.splits sum.splits)

lemma mqtt_sections_ok:
  "fst (mqtt_sections data c) = Inr () \<Longrightarrow>
   snd (mqtt_sections data c)
     = snd (section_update ''ams'' update_ams data
         (snd (section_update ''temperature'' update_temperature data
            (snd (section_update ''print'' update_print data c)))))"
  by (auto simp: mqtt_sections_def split: prod.splits sum.splits)

lemma mqtt_sections_absent:
  assumes "map_of kvs (section_of f) = None"
  shows "get_field f (snd (mqtt_sections (JObj kvs) c)) = get_field f c"
proof -
  let ?r1 = "section_update ''print'' update_print (JObj kvs) c"
  let ?r2 = "section_update ''temperature'' update_temperature (JObj kvs) (snd ?r1)"
  let ?r3 = "section_update ''ams'' update_ams (JObj kvs) (snd ?r2)"
  have p: "get_field f (snd ?r1) = get_field f c"
    using assms
    by (cases f) (simp_all add: section_update_absent section_update_frame update_print_frame)
  have t: "get_field f (snd ?r2) = get_field f (snd ?r1)"
    using assms
    by (cases f) (simp_all add: section_update_absent section_update_frame update_temperature_frame)
  have a: "get_field f (snd ?r3) = get_field f (snd ?r2)"
    using assms
    by (cases f) (simp_all add: section_update_absent section_update_frame update_ams_frame)
  show ?thesis
    unfolding mqtt_sections_snd Let_def using p t a by simp
qed

lemma update_print_eta:
  "fst (update_print (JObj pd) c) = Inr () \<Longrightarrow>
   c_eta (snd (update_print (JObj pd) c)) = eta_of (get_or pd ''mc_remaining_time'' (JInt 0))"
  by (simp add: update_print_def Let_def get_or_def eta_of_def split: sum.splits bool.splits)

lemma mqtt_sections_print_ok:
  "fst (mqtt_sections (JObj kvs) c) = Inr () \<Longrightarrow> map_of kvs ''print'' = Some d \<Longrightarrow>
   fst (update_print d c) = Inr ()"
  by (auto simp: mqtt_sections_def section_update_present split: prod.splits sum.splits)

lemma mqtt_sections_present:
  assumes "map_of kvs (section_of f) = Some (JObj sd)"
      and "fst (mqtt_sections (JObj kvs) c) = Inr ()"
  shows "get_field f (snd (mqtt_sections (JObj kvs) c)) = mqtt_assigned f sd"
proof (cases "f = Eta")
  case False
  with assms(1) show ?thesis
    unfolding mqtt_sections_ok [OF assms(2)]
    by (cases f)
       (simp_all add: section_update_present section_update_frame update_temperature_frame
          update_ams_frame update_print_dict update_temperature_dict update_ams_dict)
next
  case True
  with assms(1) have p: "map_of kvs ''print'' = Some (JObj sd)" by simp
  have "c_eta (snd (update_print (JObj sd) c)) = eta_of (get_or sd ''mc_remaining_time'' (JInt 0))"
    using mqtt_sections_print_ok [OF assms(2) p] by (rule update_print_eta)
  with True p show ?thesis
    unfolding mqtt_sections_ok [OF assms(2)]
    by (simp add: section_update_present section_update_frame update_temperature_frame
        update_ams_frame)
qed

lemma update_from_mqtt_cache:
  "get_field f (cache (snd (update_printer_status_from_mqtt e data st)))
     = get_field f (snd (mqtt_sections data (cache st)))"
  "fst (update_printer_status_from_mqtt e data st) = fst (mqtt_sections data (cache st))"
  by (cases f; simp add: update_printer_status_from_mqtt_def do_now_def split: prod.splits sum.splits)+

lemma update_stamp_frame:
  "c_last_update (snd (update_print d c)) = c_last_update c"
  "c_connected (snd (update_print d c)) = c_connected c"
  "c_last_update (snd (update_temperature d c)) = c_last_update c"
  "c_connected (snd (update_temperature d c)) = c_connected c"
  "c_last_update (snd (update_ams d c)) = c_last_update c"
  "c_connected (snd (update_ams d c)) = c_connected c"
  by (simp_all add: update_print_def update_temperature_def update_ams_def Let_def
      split: sum.splits bool.splits)

lemma mqtt_sections_stamp:
  "c_last_update (snd (mqtt_sections data c)) = c_last_update c"
  "c_connected (snd (mqtt_sections data c)) = c_connected c"
  unfolding mqtt_sections_snd Let_def
  by (simp_all add: section_update_frame update_stamp_frame)

lemma update_from_mqtt_raised:
  assumes "fst (update_printer_status_from_mqtt e data st) = Inl x"
  shows "c_last_update (cache (snd (update_printer_status_from_mqtt e data st)))
           = c_last_update (cache st)"
    and "c_connected (cache (snd (update_printer_status_from_mqtt e data st)))
           = c_connected (cache st)"
proof -
  have "cache (snd (update_printer_status_from_mqtt e data st)) = snd (mqtt_sections data (cache st))"
    using assms
    by (auto simp: update_printer_status_from_mqtt_def split: prod.splits sum.splits)
  then show "c_last_update (cache (snd (update_printer_status_from_mqtt e data st)))
           = c_last_update (cache st)"
    and "c_connected (cache (snd (update_printer_status_from_mqtt e data st)))
           = c_connected (cache st)"
    by (simp_all add: mqtt_sections_stamp)
qed

lemma update_from_http_dict:
  "get_field f (cache (snd (update_printer_status_from_http e (JObj kvs) st)))
     = (case http_key_of f of
          None \<Rightarrow> get_field f (cache st)
        | Some k \<Rightarrow> get_or kvs k (mqtt_default f))"
  by (cases f)
     (simp_all add: update_printer_status_from_http_def do_now_def get_or_def split: prod.splits)

lemma update_from_http_alert:
  "c_alert (cache (snd (update_printer_status_from_http e (JObj kvs) st))) = c_alert (cache st)"
  by (simp add: update_printer_status_from_http_def do_now_def split: prod.splits)

text \<open>
  C5, as the code has it. A manual update whose body is a JSON object overlays exactly
  the fields the object reports and leaves every other field (and the alert) as it was.
  A pushed message that is a JSON object is merged by section: a section (print,
  temperature, ams) absent from the message leaves its fields as they were; when the
  merge completes without a raise, a section present has assigned all of its fields, a
  sub-field the section does not report by its default, the eta from the remaining time
  the section reports. A merge that raises stamps neither the time of the last update
  nor \<open>connected\<close>. A poll response that is a JSON object assigns the status, the
  progress, the job name and both temperatures, each from its key or by its default,
  and leaves the eta, the filament and the alert as they were. After any sequence of
  manual updates a field no update reported keeps its value, and a field holds the
  value of the last update that reported it.
\<close>

theorem merge_overlays_fields:
  "get_field f (cache (snd (update_status e (Inr (JObj kvs)) st)))
     = (case map_of kvs (key_of f) of None \<Rightarrow> get_field f (cache st) | Some v \<Rightarrow> v)
   \<and> c_alert (cache (snd (update_status e (Inr (JObj kvs)) st))) = c_alert (cache st)
   \<and> (map_of kvs (section_of f) = None \<longrightarrow>
        get_field f (cache (snd (update_printer_status_from_mqtt e (JObj kvs) st)))
          = get_field f (cache st))
   \<and> (map_of kvs (section_of f) = Some (JObj sd)
        \<and> fst (update_printer_status_from_mqtt e (JObj kvs) st) = Inr () \<longrightarrow>
        get_field f (cache (snd (update_printer_status_from_mqtt e (JObj kvs) st)))
          = mqtt_assigned f sd)
   \<and> (fst (update_printer_status_from_mqtt e data st) = Inl x \<longrightarrow>
        c_last_update (cache (snd (update_printer_status_from_mqtt e data st)))
          = c_last_update (cache st)
        \<and> c_connected (cache (snd (update_printer_status_from_mqtt e data st)))
            = c_connected (cache st))
   \<and> get_field f (cache (snd (update_printer_status_from_http e (JObj kvs) st)))
       = (case http_key_of f of
            None \<Rightarrow> get_field f (cache st)
          | Some k \<Rightarrow> get_or kvs k (mqtt_default f))
   \<and> c_alert (cache (snd (update_printer_status_from_http e (JObj kvs) st))) = c_alert (cache st)
   \<and> ((\<forall>d \<in> set ds. map_of d (key_of f) = None) \<longrightarrow>
        get_field f (cache (manual_merges e ds st)) = get_field f (cache st))
   \<and> (map_of d (key_of f) = Some v \<and> (\<forall>d' \<in> set post. map_of d' (key_of f) = None) \<longrightarrow>
        get_field f (cache (manual_merges e (pre @ d # post) st)) = v)"
proof -
  have manual: "get_field f (cache (snd (update_status e (Inr (JObj kvs)) st)))
     = (case map_of kvs (key_of f) of None \<Rightarrow> get_field f (cache st) | Some v \<Rightarrow> v)"
    by (rule update_status_get)
  have alert: "c_alert (cache (snd (update_status e (Inr (JObj kvs)) st))) = c_alert (cache st)"
    by (simp add: update_status_dict(1) overlay_manual_alert)
  have absent: "get_field f (cache (snd (update_printer_status_from_mqtt e (JObj kvs) st)))
          = get_field f (cache st)"
    if "map_of kvs (section_of f) = None"
    using that by (simp add: update_from_mqtt_cache(1) mqtt_sections_absent)
  have present: "get_field f (cache (snd (update_printer_status_from_mqtt e (JObj kvs) st)))
          = mqtt_assigned f sd"
    if "map_of kvs (section_of f) = Some (JObj sd)
        \<and> fst (update_printer_status_from_mqtt e (JObj kvs) st) = Inr ()"
    using that by (simp add: update_from_mqtt_cache mqtt_sections_present)
  have raised: "c_last_update (cache (snd (update_printer_status_from_mqtt e data st)))
          = c_last_update (cache st)
        \<and> c_connected (cache (snd (update_printer_status_from_mqtt e data st)))
            = c_connected (cache st)"
    if "fst (update_printer_status_from_mqtt e data st) = Inl x"
    using update_from_mqtt_raised [OF that] by simp
  have http: "get_field f (cache (snd (update_printer_status_from_http e (JObj kvs) st)))
       = (case http_key_of f of
            None \<Rightarrow> get_field f (cache st)
          | Some k \<Rightarrow> get_or kvs k (mqtt_default f))"
    by (rule update_from_http_dict)
  have http_alert: "c_alert (cache (snd (update_printer_status_from_http e (JObj kvs) st)))
       = c_alert (cache st)"
    by (rule update_from_http_alert)
  have untouched: "get_field f (cache (manual_merges e ds st)) = get_field f (cache st)"
    if "\<forall>d \<in> set ds. map_of d (key_of f) = None"
    using that by (rule manual_merges_untouched)
  have last_write: "get_field f (cache (manual_merges e (pre @ d # post) st)) = v"
    if "map_of d (key_of f) = Some v \<and> (\<forall>d' \<in> set post. map_of d' (key_of f) = None)"
    using that by (simp add: manual_merges_last_write)
  from manual alert absent present raised http http_alert untouched last_write
  show ?thesis by blast
qed

lemma eta_of_example: "eta_of (JInt 95) = JStr ''01:35''"
  by (simp add: eta_of_def pad2_def str_nat.simps [of 35] str_nat.simps [of 3]
      str_nat.simps [of 1] str_nat.simps [of "Suc 0"])

theorem merge_overlays_fields_witness:
  "get_field Status
     (cache (snd (update_printer_status_from_mqtt offline
                    (JObj [(''temperature'', JObj [(''nozzle_temper'', JInt 220)])])
                    (pinit 5 printing_cache)))) = JStr ''RUNNING''
   \<and> get_field NozzleTemp
       (cache (snd (update_printer_status_from_mqtt offline
                      (JObj [(''temperature'', JObj [(''nozzle_temper'', JInt 220)])])
                      (pinit 5 printing_cache)))) = JInt 220
   \<and> get_field Eta
       (cache (snd (update_printer_status_from_mqtt offline
                      (JObj [(''print'', JObj [(''mc_remaining_time'', JInt 95)])])
                      (pinit 5 printing_cache)))) = JStr ''01:35''
   \<and> fst (update_printer_status_from_mqtt offline
            (JObj [(''print'', JObj [(''mc_remaining_time'', JStr ''soon'')]),
                   (''temperature'', JObj [(''nozzle_temper'', JInt 220)])])
            (pinit 5 printing_cache)) = Inl TypeError
   \<and> c_last_update
       (cache (snd (update_printer_status_from_mqtt offline
                      (JObj [(''print'', JObj [(''mc_remaining_time'', JStr ''soon'')]),
                             (''temperature'', JObj [(''nozzle_temper'', JInt 220)])])
                      (pinit 5 printing_cache)))) = Some 0
   \<and> get_field Status
       (cache (manual_merges offline [[(''progress'', JInt 50)], [(''eta'', JStr ''00:10'')]]
                 (pinit 5 printing_cache))) = JStr ''RUNNING''
   \<and> get_field Progress
       (cache (manual_merges offline
                 ([[(''progress'', JInt 10)]] @ [(''progress'', JInt 50)] # [[(''status'', JStr ''PAUSED'')]])
                 (pinit 5 printing_cache))) = JInt 50"
proof -
  let ?msg = "[(''temperature'', JObj [(''nozzle_temper'', JInt 220)])]"
  let ?eta = "[(''print'', JObj [(''mc_remaining_time'', JInt 95)])]"
  let ?bad = "JObj [(''print'', JObj [(''mc_remaining_time'', JStr ''soon'')]),
                    (''temperature'', JObj [(''nozzle_temper'', JInt 220)])]"
  have ok: "fst (update_printer_status_from_mqtt offline (JObj ?msg) (pinit 5 printing_cache)) = Inr ()"
    by (simp add: update_printer_status_from_mqtt_def mqtt_sections_def section_update_def
        update_temperature_def do_now_def offline_def pinit_def)
  have ok_eta: "fst (update_printer_status_from_mqtt offline (JObj ?eta) (pinit 5 printing_cache)) = Inr ()"
    by (simp add: update_printer_status_from_mqtt_def mqtt_sections_def section_update_def
        update_print_def do_now_def offline_def pinit_def)
  have bad: "fst (update_printer_status_from_mqtt offline ?bad (pinit 5 printing_cache)) = Inl TypeError"
    by (simp add: update_printer_status_from_mqtt_def mqtt_sections_def section_update_def
        update_print_def pinit_def)
  have "get_field Status
     (cache (snd (update_printer_status_from_mqtt offline (JObj ?msg) (pinit 5 printing_cache))))
      = JStr ''RUNNING''"
    using merge_overlays_fields [of Status offline ?msg "pinit 5 printing_cache"]
    by (simp add: pinit_def printing_cache_def)
  moreover have "get_field NozzleTemp
       (cache (snd (update_printer_status_from_mqtt offline (JObj ?msg) (pinit 5 printing_cache))))
      = JInt 220"
    using merge_overlays_fields
            [of NozzleTemp offline ?msg "pinit 5 printing_cache" "[(''nozzle_temper'', JInt 220)]"] ok
    by (simp add: get_or_def)
  moreover have "get_field Eta
       (cache (snd (update_printer_status_from_mqtt offline (JObj ?eta) (pinit 5 printing_cache))))
      = JStr ''01:35''"
    using merge_overlays_fields
            [of Eta offline ?eta "pinit 5 printing_cache" "[(''mc_remaining_time'', JInt 95)]"] ok_eta
    by (simp add: get_or_def eta_of_example)
  moreover have "c_last_update
       (cache (snd (update_printer_status_from_mqtt offline ?bad (pinit 5 printing_cache)))) = Some 0"
    using merge_overlays_fields [of _ offline _ "pinit 5 printing_cache" _ ?bad TypeError] bad
    by (simp add: pinit_def printing_cache_def)
  moreover have "get_field Status
       (cache (manual_merges offline [[(''progress'', JInt 50)], [(''eta'', JStr ''00:10'')]]
                 (pinit 5 printing_cache))) = JStr ''RUNNING''"
    using merge_overlays_fields
            [of Status offline _ "pinit 5 printing_cache" _ _ _
               "[[(''progress'', JInt 50)], [(''eta'', JStr ''00:10'')]]"]
    by (simp add: pinit_def printing_cache_def)
  moreover have "get_field Progress
       (cache (manual_merges offline
                 ([[(''progress'', JInt 10)]] @ [(''progress'', JInt 50)] # [[(''status'', JStr ''PAUSED'')]])
                 (pinit 5 printing_cache))) = JInt 50"
    using merge_overlays_fields
            [of Progress offline _ "pinit 5 printing_cache" _ _ _ _ "[(''progress'', JInt 50)]" "JInt 50"
               "[[(''status'', JStr ''PAUSED'')]]" "[[(''progress'', JInt 10)]]"]
    by simp
  ultimately show ?thesis using bad by blast
qed

text \<open>
  The claim as the specification words it fails for a pushed message: a report that
  carries the progress only resets the status to "IDLE" and clears the job name and
  the remaining time, fields the message did not report.
\<close>

theorem mqtt_merge_clears_unreported_fields:
  "c_status printing_cache = JStr ''RUNNING''
   \<and> c_jobName printing_cache = JStr ''benchy.3mf''
   \<and> c_status (cache (snd (update_printer_status_from_mqtt offline
                              (JObj [(''print'', JObj [(''mc_percent'', JInt 50)])])
                              (pinit 5 printing_cache)))) = JStr ''IDLE''
   \<and> c_jobName (cache (snd (update_printer_status_from_mqtt offline
                               (JObj [(''print'', JObj [(''mc_percent'', JInt 50)])])
                               (pinit 5 printing_cache)))) = JNull
   \<and> c_eta (cache (snd (update_printer_status_from_mqtt offline
                           (JObj [(''print'', JObj [(''mc_percent'', JInt 50)])])
                           (pinit 5 printing_cache)))) = JNull"
  by (simp add: update_printer_status_from_mqtt_def mqtt_sections_def section_update_def
      update_print_def do_now_def offline_def pinit_def printing_cache_def)


subsection \<open>Reading the status\<close>

lemma same_but_mode_refl [simp]: "same_but_mode c c"
  by (simp add: same_but_mode_def)

lemma same_but_mode_mode [simp]: "same_but_mode c (c\<lparr>c_mode := m\<rparr>)"
  by (simp add: same_but_mode_def)

lemma same_but_mode_trans:
  "same_but_mode a b \<Longrightarrow> same_but_mode b c \<Longrightarrow> same_but_mode a c"
  by (metis (no_types, lifting) printer_cache.surjective printer_cache.update_convs(11)
      same_but_mode_def)

lemma same_but_mode_fields:
  assumes "same_but_mode c c'"
  shows "data_fields c' = data_fields c" and "c_connected c' = c_connected c"
    and "c_last_update c' = c_last_update c"
proof -
  from assms have eq: "c' = c\<lparr>c_mode := c_mode c'\<rparr>" by (simp add: same_but_mode_def)
  show "data_fields c' = data_fields c" by (subst eq) (simp add: data_fields_def)
  show "c_connected c' = c_connected c" by (subst eq) simp
  show "c_last_update c' = c_last_update c" by (subst eq) simp
qed

lemma do_cache [simp]:
  "cache (snd (do_now e st)) = cache st"
  "cache (snd (do_time_time e st)) = cache st"
  "cache (snd (do_client_new e cid st)) = cache st"
  "cache (snd (do_client_connect e ip st)) = cache st"
  "cache (snd (do_client_sleep e n st)) = cache st"
  "cache (do_subscribe e topic st) = cache st"
  "cache (snd (do_publish e topic payload st)) = cache st"
  "cache (snd (do_connect_ex e ip port st)) = cache st"
  "cache (snd (do_http_get e url st)) = cache st"
  by (simp_all add: do_now_def do_time_time_def do_client_new_def do_client_connect_def
      do_client_sleep_def do_subscribe_def do_publish_def do_connect_ex_def do_http_get_def
      split: prod.splits)

lemma do_fst:
  "fst (do_now e st) = fst (now e (pworld st))"
  "fst (do_client_sleep e n st) = fst (client_sleep e n (pworld st))"
  "fst (do_http_get e url st) = fst (http_get e url (pworld st))"
  by (simp_all add: do_now_def do_client_sleep_def do_http_get_def split: prod.splits)

lemma callback_quiet:
  "\<not> delivers ev \<Longrightarrow> same_but_mode (cache st) (cache (callback cfg e ev st))"
proof (cases ev)
  case (OnMessage m)
  assume quiet: "\<not> delivers ev"
  show ?thesis
  proof (cases m)
    case (Inl x)
    with OnMessage show ?thesis by (simp add: on_mqtt_message_def)
  next
    case (Inr payload)
    with quiet OnMessage have "inert payload" by simp
    then obtain x where "mqtt_sections payload (cache st) = (Inl x, cache st)"
      unfolding inert_def by blast
    with OnMessage Inr show ?thesis
      by (simp add: on_mqtt_message_def update_printer_status_from_mqtt_def)
  qed
qed (simp_all add: on_mqtt_connect_def on_mqtt_disconnect_def Let_def)

lemma callbacks_quiet:
  "\<forall>ev \<in> set evs. \<not> delivers ev \<Longrightarrow> same_but_mode (cache st) (cache (callbacks cfg e evs st))"
proof (induction evs arbitrary: st)
  case Nil
  then show ?case by simp
next
  case (Cons ev evs)
  have "same_but_mode (cache st) (cache (callback cfg e ev st))"
    using Cons.prems by (simp add: callback_quiet)
  moreover have "same_but_mode (cache (callback cfg e ev st))
                   (cache (callbacks cfg e evs (callback cfg e ev st)))"
    using Cons.prems by (intro Cons.IH) simp
  ultimately show ?case by (simp add: same_but_mode_trans)
qed

lemma init_mqtt_client_quiet:
  assumes "\<forall>n w. \<forall>ev \<in> set (fst (client_sleep e n w)). \<not> delivers ev"
  shows "same_but_mode (cache st) (cache (snd (init_mqtt_client cfg e st)))"
proof -
  have q: "same_but_mode (cache s) (cache (callbacks cfg e (fst (do_client_sleep e 2 s))
                                              (snd (do_client_sleep e 2 s))))" for s
    using callbacks_quiet [of "fst (do_client_sleep e 2 s)" "snd (do_client_sleep e 2 s)" cfg e]
      assms by (simp add: do_fst)
  have c1: "cache s1 = cache st" if "do_time_time e st = (t, s1)" for t s1
    using do_cache(2) [of e st] that by simp
  have c2: "cache s2 = cache s1" if "do_client_new e cid s1 = (r, s2)" for cid s1 r s2
    using do_cache(3) [of e cid s1] that by simp
  have c3: "cache s3 = cache s2" if "do_client_connect e ip s2 = (r, s3)" for ip s2 r s3
    using do_cache(4) [of e ip s2] that by simp
  have c4: "same_but_mode (cache s3) (cache (callbacks cfg e evs s4))"
    if "do_client_sleep e 2 s3 = (evs, s4)" for s3 evs s4
    using q [of s3] that by simp
  show ?thesis
    by (auto simp: init_mqtt_client_def Let_def split: prod.splits sum.splits
        dest!: c1 c2 c3 c4)
qed


lemma update_from_http_not_dict:
  "\<not> is_dict data \<Longrightarrow> update_printer_status_from_http e data st = (Inl AttributeError, st)"
  by (cases data) (simp_all add: update_printer_status_from_http_def)

lemma try_endpoints_quiet:
  assumes "\<forall>url w r. fst (http_get e url w) = Inr r \<longrightarrow> \<not> answers r"
  shows "cache (snd (try_endpoints e urls st)) = cache st"
proof (induction urls arbitrary: st)
  case Nil
  then show ?case by simp
next
  case (Cons url urls)
  obtain r st1 where g: "do_http_get e url st = (r, st1)" by fastforce
  have c: "cache st1 = cache st" using do_cache(9) [of e url st] g by simp
  have r: "r = fst (http_get e url (pworld st))" using do_fst(3) [of e url st] g by simp
  show ?case
  proof (cases r)
    case (Inl x)
    with g c Cons.IH [of st1] show ?thesis by simp
  next
    case (Inr resp)
    with r assms have na: "\<not> answers resp" by metis
    show ?thesis
    proof (cases "status_code resp = 200")
      case False
      with g c Inr Cons.IH [of st1] show ?thesis by simp
    next
      case ok: True
      show ?thesis
      proof (cases "json_body resp")
        case (Inl x)
        with ok g c Inr Cons.IH [of st1] show ?thesis by simp
      next
        case body: (Inr data)
        with na ok have "\<not> is_dict data" by (simp add: answers_def)
        then have "update_printer_status_from_http e data st1 = (Inl AttributeError, st1)"
          by (rule update_from_http_not_dict)
        with body ok g c Inr Cons.IH [of st1] show ?thesis by simp
      qed
    qed
  qed
qed

lemma do_cacheD:
  "do_now e st = (t, st') \<Longrightarrow> cache st' = cache st"
  "do_connect_ex e ip port st = (r, st') \<Longrightarrow> cache st' = cache st"
  using do_cache(1) [of e st] do_cache(8) [of e ip port st] by simp_all

lemma do_nowD: "do_now e st = (t, st') \<Longrightarrow> t = fst (now e (pworld st))"
  using do_fst(1) [of e st] by simp

lemma check_printer_reachable_cache:
  "cache (snd (check_printer_reachable e ip st)) = cache st"
  by (auto simp: check_printer_reachable_def split: prod.splits sum.splits dest!: do_cacheD(2))

lemma staleness_check_cache:
  "cache (staleness_check e st)
     = (if stale e st then (cache st)\<lparr>c_connected := False\<rparr> else cache st)"
  by (auto simp: staleness_check_def stale_def split: option.splits prod.splits
      dest: do_nowD do_cacheD(1))

lemma get_printer_status_snapshot:
  "fst (get_printer_status cfg e st) = cache (snd (get_printer_status cfg e st))"
  by (simp add: get_printer_status_def Let_def split: prod.splits bool.splits)

lemma get_printer_status_quiet:
  assumes no_msg: "\<forall>n w. \<forall>ev \<in> set (fst (client_sleep e n w)). \<not> delivers ev"
      and no_poll: "\<forall>url w r. fst (http_get e url w) = Inr r \<longrightarrow> \<not> answers r"
  shows "same_but_mode (if stale e st then (cache st)\<lparr>c_connected := False\<rparr> else cache st)
           (fst (get_printer_status cfg e st))"
proof -
  let ?c0 = "if stale e st then (cache st)\<lparr>c_connected := False\<rparr> else cache st"
  let ?st0 = "staleness_check e st"
  let ?st1 = "if \<not> mqtt_connected ?st0 then snd (init_mqtt_client cfg e ?st0) else ?st0"
  have s0: "cache ?st0 = ?c0" by (rule staleness_check_cache)
  have "same_but_mode (cache ?st0) (cache ?st1)"
    by (simp add: init_mqtt_client_quiet [OF no_msg])
  then have s1: "same_but_mode ?c0 (cache ?st1)"
    unfolding s0 .
  have s2: "cache (snd (check_printer_reachable e ip ?st1)) = cache ?st1" for ip
    by (rule check_printer_reachable_cache)
  have s3: "cache (snd (try_http_status cfg e ip s)) = cache s" for ip s
    by (simp add: try_http_status_def try_endpoints_quiet [OF no_poll])
  have "fst (get_printer_status cfg e st) = ?c0 \<or> fst (get_printer_status cfg e st) = cache ?st1"
    using s0 s2 [of "PRINTER_IP cfg"] s3
    by (auto simp: get_printer_status_def Let_def split: prod.splits bool.splits)
  with s1 show ?thesis by auto
qed


lemma update_from_http_dict_ok:
  "fst (update_printer_status_from_http e (JObj kvs) st) = Inr ()"
  "c_connected (cache (snd (update_printer_status_from_http e (JObj kvs) st))) = True"
  by (simp_all add: update_printer_status_from_http_def do_now_def split: prod.splits)

lemma get_field_mode [simp]: "get_field f (c\<lparr>c_mode := m\<rparr>) = get_field f c"
  by (cases f) simp_all

lemma try_endpoints_answered:
  "do_http_get e url s = (Inr resp, s1) \<Longrightarrow> status_code resp = 200 \<Longrightarrow>
   json_body resp = Inr (JObj kvs) \<Longrightarrow>
   update_printer_status_from_http e (JObj kvs) s1 = (Inr (), s2) \<Longrightarrow>
   try_endpoints e (url # urls) s = (True, s2\<lparr>cache := (cache s2)\<lparr>c_mode := ''cloud''\<rparr>\<rparr>)"
  by simp

lemma try_http_status_answered:
  assumes "REQUESTS_AVAILABLE cfg"
      and "fst (do_http_get e (''http://'' @ ip @ ''/api/v1/status'') s) = Inr resp"
      and "status_code resp = 200"
      and "json_body resp = Inr (JObj kvs)"
  shows "cache (snd (try_http_status cfg e ip s))
           = (cache (snd (update_printer_status_from_http e (JObj kvs)
                            (snd (do_http_get e (''http://'' @ ip @ ''/api/v1/status'') s)))))
             \<lparr>c_mode := ''cloud''\<rparr>"
proof -
  let ?g = "do_http_get e (''http://'' @ ip @ ''/api/v1/status'') s"
  let ?u = "update_printer_status_from_http e (JObj kvs) (snd ?g)"
  have g: "?g = (Inr resp, snd ?g)" using assms(2) by (cases ?g) simp
  have u: "?u = (Inr (), snd ?u)" using update_from_http_dict_ok(1) [of e kvs "snd ?g"] by (cases ?u) simp
  have "try_endpoints e (endpoints ip) s = (True, (snd ?u)\<lparr>cache := (cache (snd ?u))\<lparr>c_mode := ''cloud''\<rparr>\<rparr>)"
    unfolding endpoints_def
    by (rule try_endpoints_answered [OF g assms(3,4) u])
  with assms(1) show ?thesis by (simp add: try_http_status_def)
qed

text \<open>
  C4, as the code has it. The staleness check itself changes nothing but the
  \<open>connected\<close> flag, which it lowers when the cache is older than 60 seconds. A status
  read of such a cache during which no new data is obtained (every pushed message that
  arrives fails to decode or is rejected by the merge before it assigns anything, and
  no HTTP status query is answered with 200 and a JSON object) returns the snapshot
  with \<open>connected\<close> false and every stored field value (status, job name, progress, eta,
  temperatures, filament, alert) unchanged: staleness clears no field. A read that
  itself polls the printer with success (an address is configured, the MQTT client is
  not connected after the attempt to connect it, the printer is reachable, and the
  first HTTP status query is answered with 200 and a JSON object) returns \<open>connected\<close>
  true and the answer merged over the cache: the status, the progress, the job name and
  both temperatures from their keys or by their defaults, the eta and the filament as
  they were.
\<close>

theorem stale_read_keeps_fields:
  "cache (staleness_check e st)
     = (if stale e st then (cache st)\<lparr>c_connected := False\<rparr> else cache st)
   \<and> (stale e st
        \<and> (\<forall>n w. \<forall>ev \<in> set (fst (client_sleep e n w)). \<not> delivers ev)
        \<and> (\<forall>url w r. fst (http_get e url w) = Inr r \<longrightarrow> \<not> answers r)
       \<longrightarrow> c_connected (fst (get_printer_status cfg e st)) = False
           \<and> data_fields (fst (get_printer_status cfg e st)) = data_fields (cache st))
   \<and> (let st0 = staleness_check e st;
           st1 = (if \<not> mqtt_connected st0 then snd (init_mqtt_client cfg e st0) else st0);
           r = check_printer_reachable e (PRINTER_IP cfg) st1;
           g = do_http_get e (''http://'' @ PRINTER_IP cfg @ ''/api/v1/status'') (snd r)
       in PRINTER_IP cfg \<noteq> [] \<and> \<not> mqtt_connected st1 \<and> fst r \<and> REQUESTS_AVAILABLE cfg
          \<and> fst g = Inr resp \<and> status_code resp = 200 \<and> json_body resp = Inr (JObj kvs)
          \<longrightarrow> c_connected (fst (get_printer_status cfg e st)) = True
              \<and> get_field f (fst (get_printer_status cfg e st))
                  = (case http_key_of f of
                       None \<Rightarrow> get_field f (cache st1)
                     | Some k \<Rightarrow> get_or kvs k (mqtt_default f)))"
proof (intro conjI)
  show "cache (staleness_check e st)
     = (if stale e st then (cache st)\<lparr>c_connected := False\<rparr> else cache st)"
    by (rule staleness_check_cache)
  show "stale e st
        \<and> (\<forall>n w. \<forall>ev \<in> set (fst (client_sleep e n w)). \<not> delivers ev)
        \<and> (\<forall>url w r. fst (http_get e url w) = Inr r \<longrightarrow> \<not> answers r)
       \<longrightarrow> c_connected (fst (get_printer_status cfg e st)) = False
           \<and> data_fields (fst (get_printer_status cfg e st)) = data_fields (cache st)"
  proof (intro impI, elim conjE)
    assume s: "stale e st"
      and no_msg: "\<forall>n w. \<forall>ev \<in> set (fst (client_sleep e n w)). \<not> delivers ev"
      and no_poll: "\<forall>url w r. fst (http_get e url w) = Inr r \<longrightarrow> \<not> answers r"
    have "same_but_mode ((cache st)\<lparr>c_connected := False\<rparr>) (fst (get_printer_status cfg e st))"
      using get_printer_status_quiet [OF no_msg no_poll, of st cfg] s by simp
    from same_but_mode_fields [OF this]
    show "c_connected (fst (get_printer_status cfg e st)) = False
           \<and> data_fields (fst (get_printer_status cfg e st)) = data_fields (cache st)"
      by (simp add: data_fields_def)
  qed
  define st0 where "st0 = staleness_check e st"
  define st1 where "st1 = (if \<not> mqtt_connected st0 then snd (init_mqtt_client cfg e st0) else st0)"
  define r where "r = check_printer_reachable e (PRINTER_IP cfg) st1"
  define g where "g = do_http_get e (''http://'' @ PRINTER_IP cfg @ ''/api/v1/status'') (snd r)"
  have polled: "c_connected (fst (get_printer_status cfg e st)) = True
              \<and> get_field f (fst (get_printer_status cfg e st))
                  = (case http_key_of f of
                       None \<Rightarrow> get_field f (cache st1)
                     | Some k \<Rightarrow> get_or kvs k (mqtt_default f))"
    if ip: "PRINTER_IP cfg \<noteq> []" and nc: "\<not> mqtt_connected st1" and reach: "fst r"
      and req: "REQUESTS_AVAILABLE cfg" and got: "fst g = Inr resp"
      and ok: "status_code resp = 200" and js: "json_body resp = Inr (JObj kvs)"
  proof -
    let ?u = "update_printer_status_from_http e (JObj kvs) (snd g)"
    have r: "check_printer_reachable e (PRINTER_IP cfg) st1 = (True, snd r)"
      using reach by (cases r) (simp add: r_def)
    have "get_printer_status cfg e st
            = (cache (snd (try_http_status cfg e (PRINTER_IP cfg) (snd r))),
               snd (try_http_status cfg e (PRINTER_IP cfg) (snd r)))"
      using ip nc r unfolding get_printer_status_def Let_def st1_def st0_def by simp
    then have res: "fst (get_printer_status cfg e st) = (cache (snd ?u))\<lparr>c_mode := ''cloud''\<rparr>"
      using try_http_status_answered [OF req got [unfolded g_def] ok js] by (simp add: g_def)
    have c: "cache (snd g) = cache st1"
      by (simp add: g_def r_def check_printer_reachable_cache)
    show ?thesis
      unfolding res
      by (simp add: update_from_http_dict_ok update_from_http_dict c split: option.split)
  qed
  show "let st0 = staleness_check e st;
           st1 = (if \<not> mqtt_connected st0 then snd (init_mqtt_client cfg e st0) else st0);
           r = check_printer_reachable e (PRINTER_IP cfg) st1;
           g = do_http_get e (''http://'' @ PRINTER_IP cfg @ ''/api/v1/status'') (snd r)
       in PRINTER_IP cfg \<noteq> [] \<and> \<not> mqtt_connected st1 \<and> fst r \<and> REQUESTS_AVAILABLE cfg
          \<and> fst g = Inr resp \<and> status_code resp = 200 \<and> json_body resp = Inr (JObj kvs)
          \<longrightarrow> c_connected (fst (get_printer_status cfg e st)) = True
              \<and> get_field f (fst (get_printer_status cfg e st))
                  = (case http_key_of f of
                       None \<Rightarrow> get_field f (cache st1)
                     | Some k \<Rightarrow> get_or kvs k (mqtt_default f))"
    unfolding Let_def using polled unfolding g_def r_def st1_def st0_def by blast
qed

lemma offline_quiet:
  "\<forall>n w. \<forall>ev \<in> set (fst (client_sleep offline n w)). \<not> delivers ev"
  "\<forall>url w r. fst (http_get offline url w) = Inr r \<longrightarrow> \<not> answers r"
  by (simp_all add: offline_def)

lemma garbled_quiet:
  "\<forall>n w. \<forall>ev \<in> set (fst (client_sleep garbled n w)). \<not> delivers ev"
  "\<forall>url w r. fst (http_get garbled url w) = Inr r \<longrightarrow> \<not> answers r"
  by (auto simp: garbled_def answers_def inert_def mqtt_sections_def section_update_def)

text \<open>
  The hypotheses of the first kind hold in the world \<open>garbled\<close> (lemma
  \<open>garbled_quiet\<close>), where the probes do answer (the broker connects and pushes an
  undecodable message and a number, the HTTP query says 200 with a body that is no
  JSON): the read of the stale cache reaches both probes and keeps every field. Those
  of the second kind hold in the world \<open>cloud\<close>.
\<close>

theorem stale_read_keeps_fields_witness:
  "stale garbled (pinit 120000000 printing_cache)
   \<and> c_connected (cache (pinit 120000000 printing_cache)) = True
   \<and> c_connected (fst (get_printer_status lan_config garbled (pinit 120000000 printing_cache)))
       = False
   \<and> data_fields (fst (get_printer_status lan_config garbled (pinit 120000000 printing_cache)))
       = data_fields printing_cache
   \<and> ptrace (snd (get_printer_status lan_config garbled (pinit 120000000 printing_cache)))
       = [Now, TimeTime, ClientNew ''wtl-s-lcars-120'', ClientConnect ''192.168.1.50'',
          ClientSleep 2, ConnectEx ''192.168.1.50'' 80,
          HttpGet ''http://192.168.1.50/api/v1/status'',
          HttpGet ''http://192.168.1.50/status'',
          HttpGet ''http://192.168.1.50/api/status'']
   \<and> c_connected (fst (get_printer_status cloud_config cloud (pinit 120000000 printing_cache)))
       = True
   \<and> get_field Progress
       (fst (get_printer_status cloud_config cloud (pinit 120000000 printing_cache))) = JInt 0
   \<and> get_field Filament
       (fst (get_printer_status cloud_config cloud (pinit 120000000 printing_cache))) = JStr ''2''"
proof -
  let ?cloud_init = "snd (init_mqtt_client cloud_config cloud
                            (staleness_check cloud (pinit 120000000 printing_cache)))"
  have ci: "cache ?cloud_init = printing_cache\<lparr>c_connected := False\<rparr>"
    "\<not> mqtt_connected ?cloud_init"
    by (simp_all add: staleness_check_def init_mqtt_client_def do_now_def cloud_def
        cloud_config_def pinit_def printing_cache_def Let_def)
  have cr: "fst (check_printer_reachable cloud ''192.168.1.50'' ?cloud_init)"
    by (simp add: check_printer_reachable_def do_connect_ex_def cloud_def split: prod.splits)
  have cg: "fst (do_http_get cloud ''http://192.168.1.50/api/v1/status''
                   (snd (check_printer_reachable cloud ''192.168.1.50'' ?cloud_init)))
              = Inr \<lparr>status_code = 200, json_body = Inr (JObj [])\<rparr>"
    by (simp add: do_http_get_def cloud_def split: prod.splits)
  have cfg: "PRINTER_IP cloud_config = ''192.168.1.50''" "REQUESTS_AVAILABLE cloud_config"
    "\<not> mqtt_connected (staleness_check cloud (pinit 120000000 printing_cache))"
    by (simp_all add: cloud_config_def staleness_check_def do_now_def cloud_def pinit_def
        printing_cache_def)
  have p1: "c_connected (fst (get_printer_status cloud_config cloud (pinit 120000000 printing_cache)))
       = True
   \<and> get_field Progress
       (fst (get_printer_status cloud_config cloud (pinit 120000000 printing_cache)))
       = get_or [] ''progress'' (JInt 0)"
    using stale_read_keeps_fields
            [of cloud "pinit 120000000 printing_cache" cloud_config
                "\<lparr>status_code = 200, json_body = Inr (JObj [])\<rparr>" "[]" Progress,
             THEN conjunct2, THEN conjunct2]
          ci(2) cr cg
    by (simp add: cfg Let_def)
  have p2: "get_field Filament
       (fst (get_printer_status cloud_config cloud (pinit 120000000 printing_cache)))
       = get_field Filament (cache ?cloud_init)"
    using stale_read_keeps_fields
            [of cloud "pinit 120000000 printing_cache" cloud_config
                "\<lparr>status_code = 200, json_body = Inr (JObj [])\<rparr>" "[]" Filament,
             THEN conjunct2, THEN conjunct2]
          ci(2) cr cg
    by (simp add: cfg Let_def)
  have poll: "c_connected (fst (get_printer_status cloud_config cloud (pinit 120000000 printing_cache)))
       = True
   \<and> get_field Progress
       (fst (get_printer_status cloud_config cloud (pinit 120000000 printing_cache))) = JInt 0
   \<and> get_field Filament
       (fst (get_printer_status cloud_config cloud (pinit 120000000 printing_cache))) = JStr ''2''"
    using p1 p2 unfolding ci(1) by (simp add: get_or_def printing_cache_def)
  have s: "stale garbled (pinit 120000000 printing_cache)"
    by (simp add: stale_def pinit_def printing_cache_def garbled_def)
  have tr: "ptrace (snd (get_printer_status lan_config garbled (pinit 120000000 printing_cache)))
       = [Now, TimeTime, ClientNew ''wtl-s-lcars-120'', ClientConnect ''192.168.1.50'',
          ClientSleep 2, ConnectEx ''192.168.1.50'' 80,
          HttpGet ''http://192.168.1.50/api/v1/status'',
          HttpGet ''http://192.168.1.50/status'',
          HttpGet ''http://192.168.1.50/api/status'']"
    by (simp add: get_printer_status_def staleness_check_def init_mqtt_client_def
        check_printer_reachable_def try_http_status_def endpoints_def on_mqtt_message_def
        update_printer_status_from_mqtt_def mqtt_sections_def section_update_def
        do_now_def do_time_time_def do_client_new_def do_client_connect_def
        do_client_sleep_def do_connect_ex_def do_http_get_def
        garbled_def lan_config_def pinit_def printing_cache_def Let_def
        str_int_def str_nat.simps [of 120] str_nat.simps [of 12] str_nat.simps [of "Suc 0"])
  from stale_read_keeps_fields
         [of garbled "pinit 120000000 printing_cache" lan_config,
          THEN conjunct2, THEN conjunct1] s garbled_quiet
  have "c_connected (fst (get_printer_status lan_config garbled (pinit 120000000 printing_cache)))
          = False
        \<and> data_fields (fst (get_printer_status lan_config garbled (pinit 120000000 printing_cache)))
            = data_fields (cache (pinit 120000000 printing_cache))"
    by blast
  then show ?thesis using s tr poll by (simp add: pinit_def printing_cache_def)
qed

text \<open>
  The claim as the specification words it fails when the read itself polls the printer
  with success: the cache is older than the threshold, the HTTP status query answers 200
  with an empty object, and the read returns \<open>connected\<close> true with the status reset to
  "IDLE" and the job name cleared.
\<close>

theorem stale_read_refreshed_by_poll:
  "stale cloud (pinit 120000000 printing_cache)
   \<and> c_status printing_cache = JStr ''RUNNING''
   \<and> c_connected (fst (get_printer_status cloud_config cloud (pinit 120000000 printing_cache)))
       = True
   \<and> c_status (fst (get_printer_status cloud_config cloud (pinit 120000000 printing_cache)))
       = JStr ''IDLE''
   \<and> c_jobName (fst (get_printer_status cloud_config cloud (pinit 120000000 printing_cache)))
       = JNull"
  by (simp add: stale_def get_printer_status_def staleness_check_def init_mqtt_client_def
      check_printer_reachable_def try_http_status_def endpoints_def
      update_printer_status_from_http_def do_now_def do_connect_ex_def do_http_get_def
      cloud_def cloud_config_def pinit_def printing_cache_def Let_def)

text \<open>
  C8. The status endpoint answers with status 200 and the ten fields of the cache it
  leaves, whatever the probes do: every raising call of the read (the broker
  connection, the socket probe, the HTTP query, its JSON body, the merge) is caught
  where it is made. When all probes fail (every pushed message that arrives fails to
  decode or is rejected by the merge before it assigns anything, and no HTTP status
  query is answered with 200 and a JSON object; a probe may raise, be refused, or
  answer with something that is no status), the fields are
  those of the cache before the read, and \<open>connected\<close> is the cached flag unless the
  cache is stale.
\<close>

theorem status_refresh_never_fails:
  "code (fst (get_status cfg e st)) = 200
   \<and> body (fst (get_status cfg e st)) = JObj (status_fields (cache (snd (get_status cfg e st))))
   \<and> ((\<forall>n w. \<forall>ev \<in> set (fst (client_sleep e n w)). \<not> delivers ev)
        \<and> (\<forall>url w r. fst (http_get e url w) = Inr r \<longrightarrow> \<not> answers r)
       \<longrightarrow> data_fields (cache (snd (get_status cfg e st))) = data_fields (cache st)
           \<and> c_connected (cache (snd (get_status cfg e st)))
               = (c_connected (cache st) \<and> \<not> stale e st))"
proof -
  have g: "get_status cfg e st
             = (jsonify (status_fields (cache (snd (get_printer_status cfg e st)))),
                snd (get_printer_status cfg e st))"
    using get_printer_status_snapshot [of cfg e st]
    by (cases "get_printer_status cfg e st") (simp add: get_status_def)
  have quiet: "data_fields (cache (snd (get_status cfg e st))) = data_fields (cache st)
           \<and> c_connected (cache (snd (get_status cfg e st)))
               = (c_connected (cache st) \<and> \<not> stale e st)"
    if no_msg: "\<forall>n w. \<forall>ev \<in> set (fst (client_sleep e n w)). \<not> delivers ev"
      and no_poll: "\<forall>url w r. fst (http_get e url w) = Inr r \<longrightarrow> \<not> answers r"
  proof -
    let ?c0 = "if stale e st then (cache st)\<lparr>c_connected := False\<rparr> else cache st"
    have "same_but_mode ?c0 (cache (snd (get_printer_status cfg e st)))"
      using get_printer_status_quiet [OF no_msg no_poll, of st cfg]
      by (simp only: get_printer_status_snapshot [symmetric])
    from same_but_mode_fields [OF this] show ?thesis
      by (simp add: g data_fields_def)
  qed
  show ?thesis
    using quiet by (simp add: g jsonify_def)
qed

theorem status_refresh_never_fails_witness:
  "\<not> stale garbled (pinit 30000000 printing_cache)
   \<and> code (fst (get_status lan_config garbled (pinit 30000000 printing_cache))) = 200
   \<and> data_fields (cache (snd (get_status lan_config garbled (pinit 30000000 printing_cache))))
       = data_fields printing_cache
   \<and> c_connected (cache (snd (get_status lan_config garbled (pinit 30000000 printing_cache))))
       = True"
proof -
  have s: "\<not> stale garbled (pinit 30000000 printing_cache)"
    by (simp add: stale_def pinit_def printing_cache_def garbled_def)
  have c: "cache (pinit 30000000 printing_cache) = printing_cache"
    by (simp add: pinit_def)
  have k: "c_connected printing_cache" by (simp add: printing_cache_def)
  from status_refresh_never_fails [of lan_config garbled "pinit 30000000 printing_cache"]
    garbled_quiet
  have "code (fst (get_status lan_config garbled (pinit 30000000 printing_cache))) = 200
        \<and> data_fields (cache (snd (get_status lan_config garbled (pinit 30000000 printing_cache))))
            = data_fields (cache (pinit 30000000 printing_cache))
        \<and> c_connected (cache (snd (get_status lan_config garbled (pinit 30000000 printing_cache))))
            = (c_connected (cache (pinit 30000000 printing_cache))
               \<and> \<not> stale garbled (pinit 30000000 printing_cache))"
    by blast
  then show ?thesis using s k by (simp add: c)
qed

end
